theory Spec2Isabelle
  imports Main "HOL-Library.Multiset" "HOL-Library.Monad_Syntax"
begin

section \<open>The dive planner of planner.c\<close>

text \<open>
  A shallow embedding of the planner core in \<^verbatim>\<open>src/planner.c\<close>. The data model is
  LP64: a C \<^verbatim>\<open>int\<close> has 32 bits and a \<^verbatim>\<open>long\<close> has 64. Values are integers of HOL, and
  the arithmetic on them is written with its wrap-around (\<open>int32\<close>) wherever the
  operands come straight from the caller or from the text of the user: in
  \<^verbatim>\<open>ascend_velocity\<close> and in the parsers. A signed overflow is undefined behaviour in C;
  \<open>int32\<close> gives what the two's-complement arithmetic of the compiled code leaves.
  The times and depths of the way points and samples are added and subtracted without
  wrap-around. C integer division truncates towards zero; it is written \<open>cdiv\<close>. An
  array is a list, an index is a C \<^verbatim>\<open>int\<close>, and a read or write outside the array
  (undefined behaviour in C) is the value \<open>None\<close>.
\<close>

subsection \<open>Arrays and C arithmetic\<close>

definition rd :: "'a list \<Rightarrow> int \<Rightarrow> 'a option" where
  "rd xs i = (if 0 \<le> i \<and> i < int (length xs) then Some (xs ! nat i) else None)"

definition wr :: "'a list \<Rightarrow> int \<Rightarrow> 'a \<Rightarrow> 'a list option" where
  "wr xs i v = (if 0 \<le> i \<and> i < int (length xs) then Some (xs[nat i := v]) else None)"

definition cdiv :: "int \<Rightarrow> int \<Rightarrow> int" where
  "cdiv a b = sgn a * sgn b * (\<bar>a\<bar> div \<bar>b\<bar>)"

text \<open>
  The value that a 32-bit \<^verbatim>\<open>int\<close> holds after an operation whose exact result is \<open>x\<close>,
  and after the conversion of a \<^verbatim>\<open>long\<close> \<open>x\<close> to \<^verbatim>\<open>int\<close>: \<open>x\<close> reduced modulo \<open>2^32\<close> into
  the range from \<open>INT_MIN\<close> to \<open>INT_MAX\<close>.
\<close>

definition INT_MIN :: int where
  "INT_MIN = - 2147483648"

definition INT_MAX :: int where
  "INT_MAX = 2147483647"

definition int32 :: "int \<Rightarrow> int" where
  "int32 x = (x + 2147483648) mod 4294967296 - 2147483648"

definition LONG_MIN :: int where
  "LONG_MIN = - 9223372036854775808"

definition LONG_MAX :: int where
  "LONG_MAX = 9223372036854775807"

subsection \<open>Stop levels: \<^verbatim>\<open>struct gaschanges\<close> and \<^verbatim>\<open>sort_stops\<close>\<close>

record gaschanges =
  depth :: int
  gasidx :: int

text \<open>
  \<^verbatim>\<open>while (gi >= 0) stoplevels[i--] = gstops[gi--].depth;\<close> The result is the final
  value of \<open>i\<close> and the array.
\<close>

function copy_gstops ::
  "gaschanges list \<Rightarrow> int \<Rightarrow> int \<Rightarrow> int option list \<Rightarrow> (int \<times> int option list) option" where
  "copy_gstops gstops i gi stoplevels =
     (if gi \<ge> 0 then
        (case rd gstops gi of
           None \<Rightarrow> None
         | Some g \<Rightarrow>
             (case wr stoplevels i (Some (depth g)) of
                None \<Rightarrow> None
              | Some stoplevels' \<Rightarrow> copy_gstops gstops (i - 1) (gi - 1) stoplevels'))
      else Some (i, stoplevels))"
  by pat_completeness auto
termination
  by (relation "measure (\<lambda>(gstops, i, gi, stoplevels). nat (gi + 1))") auto

text \<open>\<^verbatim>\<open>while (di >= 0) stoplevels[i--] = dstops[di--];\<close>\<close>

function copy_dstops ::
  "int list \<Rightarrow> int \<Rightarrow> int \<Rightarrow> int option list \<Rightarrow> (int \<times> int option list) option" where
  "copy_dstops dstops i di stoplevels =
     (if di \<ge> 0 then
        (case rd dstops di of
           None \<Rightarrow> None
         | Some d \<Rightarrow>
             (case wr stoplevels i (Some d) of
                None \<Rightarrow> None
              | Some stoplevels' \<Rightarrow> copy_dstops dstops (i - 1) (di - 1) stoplevels'))
      else Some (i, stoplevels))"
  by pat_completeness auto
termination
  by (relation "measure (\<lambda>(dstops, i, di, stoplevels). nat (di + 1))") auto

text \<open>\<^verbatim>\<open>while (i >= 0) stoplevels[i--] = 0;\<close>\<close>

function zero_fill :: "int \<Rightarrow> int option list \<Rightarrow> int option list option" where
  "zero_fill i stoplevels =
     (if i \<ge> 0 then
        (case wr stoplevels i (Some 0) of
           None \<Rightarrow> None
         | Some stoplevels' \<Rightarrow> zero_fill (i - 1) stoplevels')
      else Some stoplevels)"
  by pat_completeness auto
termination
  by (relation "measure (\<lambda>(i, stoplevels). nat (i + 1))") auto

text \<open>
  The main loop \<^verbatim>\<open>while (i >= 0) { ... }\<close> of \<^verbatim>\<open>sort_stops\<close>, with its two exits
  by \<^verbatim>\<open>break\<close>. The result is the value of \<open>i\<close> and the array on leaving the loop.
\<close>

function merge_loop ::
  "int list \<Rightarrow> gaschanges list \<Rightarrow> int \<Rightarrow> int \<Rightarrow> int \<Rightarrow> int option list \<Rightarrow>
     (int \<times> int option list) option" where
  "merge_loop dstops gstops i gi di stoplevels =
     (if i \<ge> 0 then
        (case (rd dstops di, rd gstops gi) of
           (Some d, Some g) \<Rightarrow>
             (let (v, di', gi') =
                    (if d > depth g then (d, di - 1, gi)
                     else if d = depth g then (d, di - 1, gi - 1)
                     else (depth g, di, gi - 1))
              in case wr stoplevels i (Some v) of
                   None \<Rightarrow> None
                 | Some stoplevels' \<Rightarrow>
                     if di' < 0 then copy_gstops gstops (i - 1) gi' stoplevels'
                     else if gi' < 0 then copy_dstops dstops (i - 1) di' stoplevels'
                     else merge_loop dstops gstops (i - 1) gi' di' stoplevels')
         | _ \<Rightarrow> None)
      else Some (i, stoplevels))"
  by pat_completeness auto
termination
  by (relation "measure (\<lambda>(dstops, gstops, i, gi, di, stoplevels). nat (i + 1))") auto

declare copy_gstops.simps [simp del] copy_dstops.simps [simp del]
  zero_fill.simps [simp del] merge_loop.simps [simp del]

text \<open>
  \<^verbatim>\<open>malloc(total * sizeof(int))\<close>: a fresh array of \<open>total\<close> cells. A cell that was
  never written holds no value (\<open>None\<close>); a written cell holds \<open>Some v\<close>.
\<close>

definition malloc_ints :: "nat \<Rightarrow> int option list" where
  "malloc_ints n = replicate n None"

text \<open>\<^verbatim>\<open>memcpy(dst, src, n * sizeof(int))\<close>, for \<open>n\<close> within both arrays.\<close>

definition memcpy_ints :: "int option list \<Rightarrow> int list \<Rightarrow> nat \<Rightarrow> int option list" where
  "memcpy_ints dst src n = map Some (take n src) @ drop n dst"

text \<open>
  \<^verbatim>\<open>sort_stops(dstops, dnr, gstops, gnr)\<close>: \<open>dnr\<close> and \<open>gnr\<close> are the lengths of the
  two lists. With \<open>gnr = 0\<close> the fixed stops are copied by \<^verbatim>\<open>memcpy\<close>.
\<close>

definition sort_stops :: "int list \<Rightarrow> gaschanges list \<Rightarrow> int option list option" where
  "sort_stops dstops gstops =
     (let dnr = length dstops; gnr = length gstops;
          total_nr = dnr + gnr;
          stoplevels = malloc_ints total_nr
      in if gnr = 0 then Some (memcpy_ints stoplevels dstops dnr)
         else
           (case merge_loop dstops gstops (int total_nr - 1) (int gnr - 1) (int dnr - 1) stoplevels of
              None \<Rightarrow> None
            | Some (i, stoplevels') \<Rightarrow> zero_fill i stoplevels'))"

text \<open>
  The ladder that the merge builds from the first \<open>n\<close> fixed stops and the first \<open>m\<close>
  gas-change depths, read from the top as the loop does. It is used to state what the
  loop computes.
\<close>

fun merged :: "int list \<Rightarrow> int list \<Rightarrow> nat \<Rightarrow> nat \<Rightarrow> int list" where
  "merged D G 0 m = take m G"
| "merged D G (Suc n) 0 = take (Suc n) D"
| "merged D G (Suc n) (Suc m) =
     (if D ! n > G ! m then merged D G n (Suc m) @ [D ! n]
      else if D ! n = G ! m then merged D G n m @ [D ! n]
      else merged D G (Suc n) m @ [G ! m])"

subsection \<open>Gas mixes and way points\<close>

text \<open>\<^verbatim>\<open>struct gasmix\<close>: the two fractions in permille.\<close>

record gasmix =
  o2 :: int
  he :: int

text \<open>
  \<^verbatim>\<open>struct divedatapoint\<close>. The \<^verbatim>\<open>next\<close> pointer is the order of the list that holds
  the way points. A way point with \<open>dp_time = 0\<close> declares a gas.
\<close>

record divedatapoint =
  dp_time :: int
  dp_depth :: int
  dp_gasmix :: gasmix
  dp_po2 :: int
  dp_entered :: bool

text \<open>\<^verbatim>\<open>struct diveplan\<close>; \<open>dp\<close> is the linked list of way points.\<close>

record diveplan =
  "when" :: int
  surface_pressure :: int
  bottomsac :: int
  decosac :: int
  gflow :: int
  gfhigh :: int
  dp :: "divedatapoint list"

definition create_dp :: "int \<Rightarrow> int \<Rightarrow> gasmix \<Rightarrow> int \<Rightarrow> divedatapoint" where
  "create_dp time_incr depth_mm mix po2 =
     \<lparr>dp_time = time_incr, dp_depth = depth_mm, dp_gasmix = mix, dp_po2 = po2,
      dp_entered = False\<rparr>"

text \<open>
  The walk to the end of the list in \<^verbatim>\<open>add_to_end_of_diveplan\<close>:
  \<^verbatim>\<open>if (ldp->time > lasttime) lasttime = ldp->time;\<close> for every way point.
\<close>

fun walk_lasttime :: "divedatapoint list \<Rightarrow> int \<Rightarrow> int" where
  "walk_lasttime [] lasttime = lasttime"
| "walk_lasttime (ldp # rest) lasttime =
     walk_lasttime rest (if dp_time ldp > lasttime then dp_time ldp else lasttime)"

text \<open>
  \<^verbatim>\<open>add_to_end_of_diveplan\<close>: \<open>ldp\<close> is not \<^verbatim>\<open>NULL\<close> exactly when the list is not
  empty. The result is the plan and the way point as stored.
\<close>

definition add_to_end_of_diveplan :: "diveplan \<Rightarrow> divedatapoint \<Rightarrow> diveplan \<times> divedatapoint" where
  "add_to_end_of_diveplan diveplan new_dp =
     (let lasttime = walk_lasttime (dp diveplan) 0;
          new_dp' = (if dp diveplan \<noteq> [] \<and> dp_time new_dp \<noteq> 0
                     then new_dp\<lparr>dp_time := dp_time new_dp + lasttime\<rparr> else new_dp)
      in (diveplan\<lparr>dp := dp diveplan @ [new_dp']\<rparr>, new_dp'))"

definition plan_add_segment ::
  "diveplan \<Rightarrow> int \<Rightarrow> int \<Rightarrow> gasmix \<Rightarrow> int \<Rightarrow> bool \<Rightarrow> diveplan \<times> divedatapoint" where
  "plan_add_segment diveplan duration depth_mm mix po2 entered =
     add_to_end_of_diveplan diveplan ((create_dp duration depth_mm mix po2)\<lparr>dp_entered := entered\<rparr>)"

text \<open>\<^verbatim>\<open>diveplan_empty\<close>: no way point has a time.\<close>

fun diveplan_empty_loop :: "divedatapoint list \<Rightarrow> bool" where
  "diveplan_empty_loop [] = True"
| "diveplan_empty_loop (d # rest) = (if dp_time d \<noteq> 0 then False else diveplan_empty_loop rest)"

definition diveplan_empty :: "diveplan \<Rightarrow> bool" where
  "diveplan_empty diveplan = (if dp diveplan = [] then True else diveplan_empty_loop (dp diveplan))"

subsection \<open>The ascent rate\<close>

text \<open>
  \<^verbatim>\<open>ascend_velocity\<close>: depths in millimetres, the result in millimetres per second.
  The two products are computed in \<^verbatim>\<open>int\<close>. The third parameter is not used by the
  source either.
\<close>

definition ascend_velocity :: "int \<Rightarrow> int \<Rightarrow> int \<Rightarrow> int" where
  "ascend_velocity depth_mm avg_depth bottom_time =
     (if depth_mm \<le> 6000 then cdiv 1000 60
      else if int32 (depth_mm * 4) > int32 (avg_depth * 3) then cdiv 9000 60
      else cdiv 6000 60)"

subsection \<open>Parsing gas mixes and partial pressures\<close>

text \<open>
  A C string is the list of its characters before the terminating NUL; a pointer into
  it is the rest of the string from there, and \<^verbatim>\<open>*text\<close> is \<open>peek text\<close>. The
  functions of the C library are modelled for the C locale.
\<close>

definition peek :: "string \<Rightarrow> char" where
  "peek s = (case s of [] \<Rightarrow> CHR 0x00 | c # _ \<Rightarrow> c)"

definition isspace :: "char \<Rightarrow> bool" where
  "isspace c = (c = CHR '' '' \<or> (9 \<le> (of_char c :: nat) \<and> (of_char c :: nat) \<le> 13))"

definition isdigit :: "char \<Rightarrow> bool" where
  "isdigit c = (48 \<le> (of_char c :: nat) \<and> (of_char c :: nat) \<le> 57)"

definition tolower :: "char \<Rightarrow> char" where
  "tolower c = (if 65 \<le> (of_char c :: nat) \<and> (of_char c :: nat) \<le> 90
                then char_of ((of_char c :: nat) + 32) else c)"

definition lower_code :: "char \<Rightarrow> int" where
  "lower_code c = of_char (tolower c)"

fun strcasecmp :: "string \<Rightarrow> string \<Rightarrow> int" where
  "strcasecmp [] [] = 0"
| "strcasecmp [] (b # bs) = - lower_code b"
| "strcasecmp (a # as) [] = lower_code a"
| "strcasecmp (a # as) (b # bs) =
     (if lower_code a = lower_code b then strcasecmp as bs else lower_code a - lower_code b)"

fun strncasecmp :: "string \<Rightarrow> string \<Rightarrow> nat \<Rightarrow> int" where
  "strncasecmp s t 0 = 0"
| "strncasecmp [] [] (Suc n) = 0"
| "strncasecmp [] (b # bs) (Suc n) = - lower_code b"
| "strncasecmp (a # as) [] (Suc n) = lower_code a"
| "strncasecmp (a # as) (b # bs) (Suc n) =
     (if lower_code a = lower_code b then strncasecmp as bs n else lower_code a - lower_code b)"

text \<open>The value of a run of decimal digits.\<close>

definition digits_value :: "string \<Rightarrow> int" where
  "digits_value ds = foldl (\<lambda>acc c. acc * 10 + (of_char c - 48)) 0 ds"

text \<open>
  \<^verbatim>\<open>strtol(nptr, &end, 10)\<close>: white space, an optional sign, decimal digits. The
  result is the value and \<^verbatim>\<open>end\<close>; without a digit the value is 0 and \<^verbatim>\<open>end\<close> is
  \<^verbatim>\<open>nptr\<close>. A value outside the range of \<^verbatim>\<open>long\<close> is returned as \<^verbatim>\<open>LONG_MIN\<close> or
  \<^verbatim>\<open>LONG_MAX\<close>, as the C library does.
\<close>

definition strtol :: "string \<Rightarrow> int \<times> string" where
  "strtol nptr =
     (let s = dropWhile isspace nptr;
          (neg, s') = (case s of
                         [] \<Rightarrow> (False, s)
                       | c # r \<Rightarrow> if c = CHR ''-'' then (True, r)
                                  else if c = CHR ''+'' then (False, r) else (False, s));
          ds = takeWhile isdigit s'
      in if ds = [] then (0, nptr)
         else (max LONG_MIN (min LONG_MAX (if neg then - digits_value ds else digits_value ds)),
               dropWhile isdigit s'))"

text \<open>
  \<^verbatim>\<open>get_tenths(begin, endp)\<close>: the second argument is the value of \<^verbatim>\<open>*endp\<close> on entry,
  the second result its value on return; an error return leaves it as it was. The
  \<^verbatim>\<open>long\<close> that \<^verbatim>\<open>strtol\<close> returns is stored in the \<^verbatim>\<open>int\<close> \<^verbatim>\<open>value\<close>, which is then
  multiplied and added to in \<^verbatim>\<open>int\<close>.
\<close>

definition get_tenths :: "string \<Rightarrow> string \<Rightarrow> int \<times> string" where
  "get_tenths begin endp =
     (let (v, end0) = strtol begin;
          value0 = int32 v
      in if begin = end0 then (- 1, endp)
         else
           (let val = int32 (value0 * 10)
            in if peek end0 = CHR ''.'' then
                 (let end1 = tl end0
                  in if \<not> isdigit (peek end1) then (- 1, endp)
                     else (int32 (val + (of_char (peek end1) - 48)), dropWhile isdigit (tl end1)))
               else (val, end0)))"

definition get_permille :: "string \<Rightarrow> string \<Rightarrow> int \<times> string" where
  "get_permille begin endp =
     (let (val, end0) = get_tenths begin endp
      in if val \<ge> 0 then (if peek end0 = CHR ''%'' then (val, tl end0) else (val, end0))
         else (val, end0))"

text \<open>
  Modelled from the spec: the constant \<^verbatim>\<open>O2_IN_AIR\<close> is declared in a header that is
  not among the sources; the specification gives 209 permille.
\<close>

definition O2_IN_AIR :: int where
  "O2_IN_AIR = 209"

text \<open>
  The three branches of \<^verbatim>\<open>validate_gas\<close> that read the mix: the result is \<^verbatim>\<open>o2\<close>,
  \<^verbatim>\<open>he\<close> and \<^verbatim>\<open>text\<close> after them. \<^verbatim>\<open>translate\<close> is the identity.
\<close>

definition validate_gas_branches :: "string \<Rightarrow> int \<times> int \<times> string" where
  "validate_gas_branches text =
     (if strcasecmp text ''air'' = 0 then
        (O2_IN_AIR, 0, drop (length ''air'') text)
      else if strncasecmp text ''ean'' 3 = 0 then
        (let (a, text') = get_permille (drop 3 text) text in (a, 0, text'))
      else
        (let (a, text') = get_permille text text
         in if peek text' = CHR ''/'' then
              (let (b, text'') = get_permille (tl text') text' in (a, b, text''))
            else (a, 0, text')))"

text \<open>
  \<^verbatim>\<open>validate_gas(text, gas)\<close>: \<open>None\<close> is the \<^verbatim>\<open>NULL\<close> pointer. The result is the return
  value and the gas mix behind \<^verbatim>\<open>gas\<close> afterwards.
\<close>

definition validate_gas :: "string option \<Rightarrow> gasmix \<Rightarrow> int \<times> gasmix" where
  "validate_gas text0 gas =
     (case text0 of
        None \<Rightarrow> (0, gas)
      | Some t \<Rightarrow>
          (let text = dropWhile isspace t
           in if text = [] then (0, gas)
              else
                (let (o2v, hev, text1) = validate_gas_branches text;
                     text2 = dropWhile isspace text1
                 in if text2 \<noteq> [] then (0, gas)
                    else if text2 \<noteq> [] \<or> o2v < 1 \<or> o2v > 1000 \<or> hev < 0 \<or>
                            int32 (o2v + hev) > 1000
                      then (0, gas)
                    else (1, gas\<lparr>o2 := o2v, he := hev\<rparr>))))"

text \<open>\<^verbatim>\<open>validate_po2(text, mbar_po2)\<close>: the return value and \<^verbatim>\<open>*mbar_po2\<close> afterwards.\<close>

definition validate_po2 :: "string option \<Rightarrow> int \<Rightarrow> int \<times> int" where
  "validate_po2 text0 mbar_po2 =
     (case text0 of
        None \<Rightarrow> (0, mbar_po2)
      | Some t \<Rightarrow>
          (let (po2v, text) = get_tenths t t
           in if po2v < 0 then (0, mbar_po2)
              else
                (let text1 = dropWhile isspace text;
                     text2 = dropWhile isspace text1
                 in if text2 \<noteq> [] then (0, mbar_po2) else (1, int32 (po2v * 100)))))"

subsection \<open>Cylinders and the dive record\<close>

text \<open>
  \<^verbatim>\<open>cylinder_t\<close>: description, size in ml, working pressure, gas mix, start and end
  pressure, switch depth and the gas used.
\<close>

record cylinder_t =
  cyl_description :: string
  cyl_size :: int
  cyl_workingpressure :: int
  cyl_gasmix :: gasmix
  cyl_start :: int
  cyl_end :: int
  cyl_depth :: int
  cyl_gas_used :: int

text \<open>
  Modelled from the spec: \<^verbatim>\<open>gasmix_distance\<close>, \<^verbatim>\<open>gasmix_is_null\<close> and \<^verbatim>\<open>cylinder_nodata\<close>
  are declared in a header that is not among the sources. The specification gives the
  distance as the sum of the absolute differences of the two fractions, a null mix as
  both fractions 0, and a cylinder with data as one where any of description, size,
  working pressure or gas is set.
\<close>

definition gasmix_distance :: "gasmix \<Rightarrow> gasmix \<Rightarrow> int" where
  "gasmix_distance a b = \<bar>o2 a - o2 b\<bar> + \<bar>he a - he b\<bar>"

definition gasmix_is_null :: "gasmix \<Rightarrow> bool" where
  "gasmix_is_null g = (o2 g = 0 \<and> he g = 0)"

definition cylinder_nodata :: "cylinder_t \<Rightarrow> bool" where
  "cylinder_nodata c =
     (cyl_description c = [] \<and> cyl_size c = 0 \<and> cyl_workingpressure c = 0 \<and>
      gasmix_is_null (cyl_gasmix c))"

text \<open>\<^verbatim>\<open>struct sample\<close> and \<^verbatim>\<open>struct event\<close>, with the fields the planner uses.\<close>

record sample =
  s_time :: int
  s_depth :: int
  s_po2 :: int

record event =
  ev_time :: int
  ev_name :: string
  ev_value :: int

text \<open>
  \<^verbatim>\<open>struct dive\<close> with its dive computer: the array \<^verbatim>\<open>cylinder\<close> of \<^verbatim>\<open>MAX_CYLINDERS\<close>
  entries (the length of the list), the samples and the events.
\<close>

record dive =
  dive_when :: int
  dc_surface_pressure :: int
  cylinder :: "cylinder_t list"
  dc_sample :: "sample list"
  dc_events :: "event list"

text \<open>
  \<^verbatim>\<open>get_gasidx\<close>: \<^verbatim>\<open>while (++gasidx < MAX_CYLINDERS)\<close> over the cylinders from index 0;
  the loop is given the cylinders from index \<open>i\<close> on.
\<close>

fun get_gasidx_loop :: "cylinder_t list \<Rightarrow> gasmix \<Rightarrow> int \<Rightarrow> int" where
  "get_gasidx_loop [] mix i = - 1"
| "get_gasidx_loop (c # cs) mix i =
     (if gasmix_distance (cyl_gasmix c) mix < 200 then i
      else get_gasidx_loop cs mix (i + 1))"

definition get_gasidx :: "dive \<Rightarrow> gasmix \<Rightarrow> int" where
  "get_gasidx d mix = get_gasidx_loop (cylinder d) mix 0"

text \<open>
  \<^verbatim>\<open>verify_gas_exists\<close>: the same search, but a cylinder without data is passed over.
  The message on \<^verbatim>\<open>stderr\<close> is not modelled.
\<close>

fun verify_gas_exists_loop :: "cylinder_t list \<Rightarrow> gasmix \<Rightarrow> int \<Rightarrow> int" where
  "verify_gas_exists_loop [] mix_in i = - 1"
| "verify_gas_exists_loop (cyl # cs) mix_in i =
     (if cylinder_nodata cyl then verify_gas_exists_loop cs mix_in (i + 1)
      else if gasmix_distance (cyl_gasmix cyl) mix_in < 200 then i
      else verify_gas_exists_loop cs mix_in (i + 1))"

definition verify_gas_exists :: "dive \<Rightarrow> gasmix \<Rightarrow> int" where
  "verify_gas_exists d mix_in = verify_gas_exists_loop (cylinder d) mix_in 0"

text \<open>
  The cylinder at index \<open>k\<close> has data and its mix is at a distance below 200 from
  \<open>mix\<close>; used to state what the two searches find.
\<close>

definition matches_at :: "cylinder_t list \<Rightarrow> gasmix \<Rightarrow> nat \<Rightarrow> bool" where
  "matches_at cs mix k =
     (\<not> cylinder_nodata (cs ! k) \<and> gasmix_distance (cyl_gasmix (cs ! k)) mix < 200)"

subsection \<open>What the planner takes from outside\<close>

text \<open>
  The functions that \<^verbatim>\<open>planner.c\<close> calls and that are defined elsewhere are parameters
  of the model. The decompression module keeps the tissues in a state of its own, of
  type \<open>'s\<close>; a tissue tolerance is a value of type \<open>'t\<close>.
  \<^item> \<open>average_depth\<close>, \<open>interpolate\<close>: the functions of those names.
  \<^item> \<open>gas_switch_event d seconds idx\<close>: the event that \<^verbatim>\<open>add_gas_switch_event\<close> appends;
    \<open>get_gasmix_from_event\<close>: the function of that name.
  \<^item> \<open>init_decompression d\<close>: the tolerance and the tissues after the call.
  \<^item> \<open>add_segment depth d mix duration po2\<close>: \<^verbatim>\<open>add_segment(depth_to_mbar(depth, d) / 1000.0, mix, duration, po2, d)\<close>,
    from the tissues before to the tolerance returned and the tissues after.
  \<^item> \<open>ceiling_above tol surface_pressure d level\<close>: the test
    \<^verbatim>\<open>deco_allowed_depth(tol, surface_pressure / 1000.0, d, 1) > level\<close> as C evaluates it
    with the declared result type of \<^verbatim>\<open>deco_allowed_depth\<close>.
  \<^item> \<open>indeterminate\<close>: the value read from the local \<^verbatim>\<open>bottom_time\<close> of \<^verbatim>\<open>plan\<close> where it is
    passed to \<^verbatim>\<open>ascend_velocity\<close> before its first assignment.
  The dive table (\<^verbatim>\<open>record_dive\<close>, \<^verbatim>\<open>delete_single_dive\<close>), the gradient factors
  (\<^verbatim>\<open>set_gf\<close>), the pressure accounting of the cylinders (\<^verbatim>\<open>reset_cylinders\<close>,
  \<^verbatim>\<open>update_cylinder_pressure\<close>, which compute in floating point) and the notes
  (\<^verbatim>\<open>add_plan_to_notes\<close>) do not act on the way points, the samples' times and depths
  or the control flow of \<^verbatim>\<open>plan\<close>; they are left out.
\<close>

record ('s, 't) planner_env =
  average_depth :: "diveplan \<Rightarrow> int"
  interpolate :: "int \<Rightarrow> int \<Rightarrow> int \<Rightarrow> int \<Rightarrow> int"
  gas_switch_event :: "dive \<Rightarrow> int \<Rightarrow> int \<Rightarrow> event"
  get_gasmix_from_event :: "event \<Rightarrow> gasmix"
  init_decompression :: "dive \<Rightarrow> 't \<times> 's"
  add_segment :: "int \<Rightarrow> dive \<Rightarrow> gasmix \<Rightarrow> int \<Rightarrow> int \<Rightarrow> 's \<Rightarrow> 't \<times> 's"
  ceiling_above :: "'t \<Rightarrow> int \<Rightarrow> dive \<Rightarrow> int \<Rightarrow> bool"
  indeterminate :: int

text \<open>What \<^verbatim>\<open>report_error\<close> is called with.\<close>

datatype plan_error = CantFindGas gasmix | TooManyGasMixes

definition TIMESTEP :: int where
  "TIMESTEP = 1"

definition DECOTIMESTEP :: int where
  "DECOTIMESTEP = 60"

text \<open>
  Modelled from the spec: \<^verbatim>\<open>SURFACE_PRESSURE\<close> is declared in a header that is not among
  the sources; the specification gives 1013 mbar.
\<close>

definition SURFACE_PRESSURE :: int where
  "SURFACE_PRESSURE = 1013"

text \<open>The table \<^verbatim>\<open>decostoplevels\<close> as initialised, and \<^verbatim>\<open>set_last_stop\<close> acting on it.\<close>

definition decostoplevels :: "int list" where
  "decostoplevels =
     [0, 3000, 6000, 9000, 12000, 15000, 18000, 21000, 24000, 27000,
      30000, 33000, 36000, 39000, 42000, 45000, 48000, 51000, 54000, 57000,
      60000, 63000, 66000, 69000, 72000, 75000, 78000, 81000, 84000, 87000,
      90000, 100000, 110000, 120000, 130000, 140000, 150000, 160000, 170000,
      180000, 190000, 200000, 220000, 240000, 260000, 280000, 300000,
      320000, 340000, 360000, 380000]"

definition set_last_stop :: "bool \<Rightarrow> int list \<Rightarrow> int list" where
  "set_last_stop last_stop_6m levels =
     (if last_stop_6m then levels[1 := 6000] else levels[1 := 3000])"

subsection \<open>Gas from the events\<close>

text \<open>
  \<^verbatim>\<open>get_gas_from_events\<close>: the events up to \<open>time\<close>, in list order; the result is the gas
  afterwards.
\<close>

fun get_gas_from_events ::
  "('s, 't) planner_env \<Rightarrow> event list \<Rightarrow> int \<Rightarrow> gasmix \<Rightarrow> gasmix" where
  "get_gas_from_events env [] t gas = gas"
| "get_gas_from_events env (e # es) t gas =
     (if ev_time e \<le> t then
        get_gas_from_events env es t
          (if ev_name e = ''gaschange'' then get_gasmix_from_event env e else gas)
      else gas)"

subsection \<open>\<^verbatim>\<open>create_dive_from_plan\<close>\<close>

text \<open>\<^verbatim>\<open>sample[-1].po2 = po2\<close>: the sample before the one in preparation.\<close>

definition set_prev_po2 :: "sample list \<Rightarrow> int \<Rightarrow> sample list" where
  "set_prev_po2 samples po2 =
     (if samples = [] then samples else butlast samples @ [(last samples)\<lparr>s_po2 := po2\<rparr>])"

text \<open>
  The loop over the way points. \<open>None\<close> is the exit by \<^verbatim>\<open>goto gas_error_exit\<close>. The
  event for a change of set point is appended as \<^verbatim>\<open>add_event\<close> is given it.
\<close>

fun create_dive_loop ::
  "('s, 't) planner_env \<Rightarrow> divedatapoint list \<Rightarrow> dive \<Rightarrow> gasmix \<Rightarrow> int \<Rightarrow> int \<Rightarrow> int \<Rightarrow> dive option" where
  "create_dive_loop env [] d oldgasmix oldpo2 lasttime lastdepth = Some d"
| "create_dive_loop env (w # rest) d oldgasmix oldpo2 lasttime lastdepth =
     (if dp_time w = 0 then
        (if verify_gas_exists d (dp_gasmix w) < 0 then None
         else create_dive_loop env rest d oldgasmix oldpo2 lasttime lastdepth)
      else
        (let mix = (if gasmix_is_null (dp_gasmix w) then oldgasmix else dp_gasmix w);
             po2 = dp_po2 w;
             d1 = (if oldpo2 \<noteq> po2 \<and> lasttime \<noteq> 0
                   then d\<lparr>dc_events := dc_events d @
                          [\<lparr>ev_time = lasttime, ev_name = ''SP change'', ev_value = po2\<rparr>]\<rparr>
                   else d)
         in if gasmix_distance mix oldgasmix > 0 then
              (let idx = verify_gas_exists d1 mix
               in if idx < 0 then None
                  else
                    (let d2 = d1\<lparr>dc_events := dc_events d1 @ [gas_switch_event env d1 (lasttime + 1) idx]\<rparr>;
                         d3 = d2\<lparr>dc_sample := set_prev_po2 (dc_sample d2) po2 @
                                [\<lparr>s_time = lasttime + 1, s_depth = lastdepth, s_po2 = 0\<rparr>]\<rparr>;
                         d4 = d3\<lparr>dc_sample := set_prev_po2 (dc_sample d3) po2 @
                                [\<lparr>s_time = dp_time w, s_depth = dp_depth w, s_po2 = po2\<rparr>]\<rparr>
                     in create_dive_loop env rest d4 mix po2 (dp_time w) (dp_depth w)))
            else
              (let d4 = d1\<lparr>dc_sample := set_prev_po2 (dc_sample d1) po2 @
                          [\<lparr>s_time = dp_time w, s_depth = dp_depth w, s_po2 = po2\<rparr>]\<rparr>
               in create_dive_loop env rest d4 oldgasmix po2 (dp_time w) (dp_depth w))))"

text \<open>
  \<^verbatim>\<open>create_dive_from_plan\<close>: the dive (\<open>None\<close> for \<^verbatim>\<open>NULL\<close>) and the errors reported.
  The new dive gets the cylinders of the master dive (\<^verbatim>\<open>copy_cylinders\<close>) and starts
  with one sample that holds the set point of the first way point. The array of
  cylinders has at least one entry in C; for an empty list the model returns no dive.
\<close>

definition create_dive_from_plan ::
  "('s, 't) planner_env \<Rightarrow> diveplan \<Rightarrow> dive \<Rightarrow> plan_error list \<Rightarrow> dive option \<times> plan_error list" where
  "create_dive_from_plan env diveplan master_dive errors =
     (case dp diveplan of
        [] \<Rightarrow> (None, errors)
      | w # _ \<Rightarrow>
          (let d0 = \<lparr>dive_when = when diveplan, dc_surface_pressure = surface_pressure diveplan,
                      cylinder = cylinder master_dive,
                      dc_sample = [\<lparr>s_time = 0, s_depth = 0, s_po2 = dp_po2 w\<rparr>], dc_events = []\<rparr>
           in case rd (cylinder master_dive) 0 of
                None \<Rightarrow> (None, errors)
              | Some cyl \<Rightarrow>
                  (case create_dive_loop env (dp diveplan) d0 (cyl_gasmix cyl) 0 0 0 of
                     None \<Rightarrow> (None, errors @ [TooManyGasMixes])
                   | Some d \<Rightarrow>
                       if int (length (dc_sample d)) \<le> 1 then (None, errors) else (Some d, errors))))"

subsection \<open>The tissues at the end of the dive so far\<close>

text \<open>
  \<^verbatim>\<open>interpolate_transition\<close>: the loop from \<open>j\<close> to \<open>t1\<close>. The tolerance is a local that
  is not initialised: without an iteration the value returned is indeterminate, \<open>None\<close>.
\<close>

function interpolate_loop ::
  "('s, 't) planner_env \<Rightarrow> dive \<Rightarrow> int \<Rightarrow> int \<Rightarrow> int \<Rightarrow> int \<Rightarrow> gasmix \<Rightarrow> int \<Rightarrow> int \<Rightarrow>
     't option \<Rightarrow> 's \<Rightarrow> 't option \<times> 's" where
  "interpolate_loop env d t0 t1 d0 d1 mix ppo2 j tol deco =
     (if j < t1 then
        (let depth_mm = interpolate env d0 d1 (j - t0) (t1 - t0);
             (tol', deco') = add_segment env depth_mm d mix 1 ppo2 deco
         in interpolate_loop env d t0 t1 d0 d1 mix ppo2 (j + 1) (Some tol') deco')
      else (tol, deco))"
  by pat_completeness auto
termination
  by (relation "measure (\<lambda>(env, d, t0, t1, d0, d1, mix, ppo2, j, tol, deco). nat (t1 - j))") auto

declare interpolate_loop.simps [simp del]

definition interpolate_transition ::
  "('s, 't) planner_env \<Rightarrow> dive \<Rightarrow> int \<Rightarrow> int \<Rightarrow> int \<Rightarrow> int \<Rightarrow> gasmix \<Rightarrow> int \<Rightarrow> 's \<Rightarrow> 't option \<times> 's" where
  "interpolate_transition env d t0 t1 d0 d1 mix ppo2 deco =
     interpolate_loop env d t0 t1 d0 d1 mix ppo2 t0 None deco"

text \<open>
  One round of the loop over the samples in \<^verbatim>\<open>tissue_at_end\<close>, for the sample with
  index \<open>i\<close>. The state of the loop is \<open>lastdepth\<close>, the depth of the sample before
  (\<^verbatim>\<open>psample\<close>), \<open>t0\<close>, the gas, the tolerance, the tissues and the errors reported. When
  no cylinder holds the gas the error is reported and cylinder 0 is used.
\<close>

definition tissue_round ::
  "('s, 't) planner_env \<Rightarrow> dive \<Rightarrow> nat \<Rightarrow> sample \<Rightarrow>
     int \<times> int \<times> int \<times> gasmix \<times> 't option \<times> 's \<times> plan_error list \<Rightarrow>
     (int \<times> int \<times> int \<times> gasmix \<times> 't option \<times> 's \<times> plan_error list) option" where
  "tissue_round env d i smp st =
     (let (lastdepth, pdepth, t0, gas, tol, deco, errors) = st;
          t1 = s_time smp;
          gas' = get_gas_from_events env (dc_events d) t0 gas;
          (idx, errors') = (if get_gasidx d gas' = - 1 then (0, errors @ [CantFindGas gas'])
                            else (get_gasidx d gas', errors));
          lastdepth' = (if i > 0 then pdepth else lastdepth)
      in case rd (cylinder d) idx of
           None \<Rightarrow> None
         | Some cyl \<Rightarrow>
             (let (tol', deco') =
                    interpolate_transition env d t0 t1 lastdepth' (s_depth smp) (cyl_gasmix cyl) (s_po2 smp) deco
              in Some (lastdepth', s_depth smp, t1, gas', tol', deco', errors')))"

fun tissue_loop ::
  "('s, 't) planner_env \<Rightarrow> dive \<Rightarrow> nat \<Rightarrow> sample list \<Rightarrow>
     int \<times> int \<times> int \<times> gasmix \<times> 't option \<times> 's \<times> plan_error list \<Rightarrow>
     (int \<times> int \<times> int \<times> gasmix \<times> 't option \<times> 's \<times> plan_error list) option" where
  "tissue_loop env d i [] st = Some st"
| "tissue_loop env d i (smp # rest) st =
     (case tissue_round env d i smp st of
        None \<Rightarrow> None
      | Some st' \<Rightarrow> tissue_loop env d (Suc i) rest st')"

text \<open>
  \<^verbatim>\<open>tissue_at_end(dive, cached_datap)\<close> for a dive that is not \<^verbatim>\<open>NULL\<close>: the tolerance
  returned, the tissues, \<^verbatim>\<open>*cached_datap\<close> and the errors afterwards. A cache holds a
  tolerance and the tissues.
\<close>

definition tissue_at_end ::
  "('s, 't) planner_env \<Rightarrow> dive \<Rightarrow> ('t option \<times> 's) option \<Rightarrow> 's \<Rightarrow> plan_error list \<Rightarrow>
     ('t option \<times> 's \<times> ('t option \<times> 's) option \<times> plan_error list) option" where
  "tissue_at_end env d cached_data deco errors =
     (let (tol, deco1, cached_data') =
            (case cached_data of
               Some (ctol, cdeco) \<Rightarrow> (ctol, cdeco, cached_data)
             | None \<Rightarrow>
                 (let (itol, ideco) = init_decompression env d
                  in (Some itol, ideco, Some (Some itol, ideco))))
      in if dc_sample d = [] then Some (tol, deco1, cached_data', errors)
         else
           (case rd (cylinder d) 0 of
              None \<Rightarrow> None
            | Some cyl0 \<Rightarrow>
                (case tissue_loop env d 0 (dc_sample d) (0, 0, 0, cyl_gasmix cyl0, tol, deco1, errors) of
                   None \<Rightarrow> None
                 | Some (lastdepth, pdepth, t0, gas, tol', deco', errors') \<Rightarrow>
                     Some (tol', deco', cached_data', errors'))))"

subsection \<open>The gas changes\<close>

text \<open>
  The insertion in \<^verbatim>\<open>analyze_gaslist\<close>: the new entry goes before the first entry of a
  larger depth.
\<close>

fun insert_gaschange :: "gaschanges list \<Rightarrow> gaschanges \<Rightarrow> gaschanges list" where
  "insert_gaschange [] x = [x]"
| "insert_gaschange (g # gs) x =
     (if depth x < depth g then x # g # gs else g # insert_gaschange gs x)"

text \<open>
  The loop of \<^verbatim>\<open>analyze_gaslist\<close>; \<open>None\<close> is the failure of the \<^verbatim>\<open>assert\<close>. The
  result is the array of gas changes and \<^verbatim>\<open>*asc_cylinder\<close>.
\<close>

fun analyze_loop ::
  "dive \<Rightarrow> int \<Rightarrow> divedatapoint list \<Rightarrow> gaschanges list \<Rightarrow> int \<Rightarrow> int \<Rightarrow> (gaschanges list \<times> int) option" where
  "analyze_loop d depth_mm [] gcs best_depth asc_cylinder = Some (gcs, asc_cylinder)"
| "analyze_loop d depth_mm (w # rest) gcs best_depth asc_cylinder =
     (if dp_time w = 0 then
        (if dp_depth w \<le> depth_mm then
           (let idx = get_gasidx d (dp_gasmix w)
            in if idx = - 1 then None
               else analyze_loop d depth_mm rest
                      (insert_gaschange gcs \<lparr>depth = dp_depth w, gasidx = idx\<rparr>) best_depth asc_cylinder)
         else if dp_depth w < best_depth then
           analyze_loop d depth_mm rest gcs (dp_depth w) (get_gasidx d (dp_gasmix w))
         else analyze_loop d depth_mm rest gcs best_depth asc_cylinder)
      else analyze_loop d depth_mm rest gcs best_depth asc_cylinder)"

definition analyze_gaslist ::
  "diveplan \<Rightarrow> dive \<Rightarrow> int \<Rightarrow> int \<Rightarrow> (gaschanges list \<times> int) option" where
  "analyze_gaslist diveplan d depth_mm asc_cylinder =
     (case rd (cylinder d) asc_cylinder of
        None \<Rightarrow> None
      | Some cyl \<Rightarrow> analyze_loop d depth_mm (dp diveplan) [] (cyl_depth cyl) asc_cylinder)"

subsection \<open>The ascent\<close>

text \<open>
  The locals of \<^verbatim>\<open>plan\<close> that change during the ascent, with the plan and the tissues
  of the decompression module.
\<close>

record ('s, 't) ascent =
  a_diveplan :: diveplan
  a_clock :: int
  a_previous_point_time :: int
  a_depth :: int
  a_stopping :: bool
  a_last_ascend_rate :: int
  a_tissue_tolerance :: "'t option"
  a_deco :: 's
  a_gas :: gasmix
  a_current_cylinder :: int
  a_gi :: int

text \<open>What stays fixed during the ascent.\<close>

record ('s, 't) ascent_ctx =
  c_env :: "('s, 't) planner_env"
  c_dive :: dive
  c_po2 :: int
  c_avg_depth :: int
  c_bottom_time :: int
  c_surface_pressure :: int
  c_stoplevels :: "int option list"
  c_gaschanges :: "gaschanges list"

text \<open>
  \<^verbatim>\<open>plan_add_segment(diveplan, clock - previous_point_time, depth, gas, po2, false);
  previous_point_time = clock; stopping = ...;\<close> as it stands at four places of the
  ascent.
\<close>

definition add_waypoint :: "int \<Rightarrow> bool \<Rightarrow> ('s, 't) ascent \<Rightarrow> ('s, 't) ascent" where
  "add_waypoint po2 stopping a =
     a\<lparr>a_diveplan := fst (plan_add_segment (a_diveplan a) (a_clock a - a_previous_point_time a)
                          (a_depth a) (a_gas a) po2 False),
       a_previous_point_time := a_clock a,
       a_stopping := stopping\<rparr>"

text \<open>
  The body of the loop \<^verbatim>\<open>do { ... } while (depth > stoplevels[stopidx])\<close>; \<open>level\<close> is
  \<^verbatim>\<open>stoplevels[stopidx]\<close> and \<open>mix\<close> the mix of the current cylinder.
\<close>

definition ascend_step ::
  "('s, 't) ascent_ctx \<Rightarrow> int \<Rightarrow> gasmix \<Rightarrow> ('s, 't) ascent \<Rightarrow> ('s, 't) ascent" where
  "ascend_step c level mix a =
     (let rate = ascend_velocity (a_depth a) (c_avg_depth c) (c_bottom_time c);
          deltad = rate * TIMESTEP;
          a1 = (if rate \<noteq> a_last_ascend_rate a
                then (add_waypoint (c_po2 c) False a)\<lparr>a_last_ascend_rate := rate\<rparr> else a);
          deltad' = (if a_depth a - deltad < level then a_depth a - level else deltad);
          (tol, deco') = add_segment (c_env c) (a_depth a) (c_dive c) mix TIMESTEP (c_po2 c) (a_deco a1)
      in a1\<lparr>a_tissue_tolerance := Some tol, a_deco := deco',
            a_clock := a_clock a + TIMESTEP, a_depth := a_depth a - deltad'\<rparr>)"

lemma ascend_velocity_pos: "16 \<le> ascend_velocity x y z"
  by (simp add: ascend_velocity_def cdiv_def)

lemma a_depth_ascend_step:
  "a_depth (ascend_step c level mix a) =
     (if a_depth a - ascend_velocity (a_depth a) (c_avg_depth c) (c_bottom_time c) < level
      then level else a_depth a - ascend_velocity (a_depth a) (c_avg_depth c) (c_bottom_time c))"
  by (simp add: ascend_step_def Let_def TIMESTEP_def split: prod.splits)

function ascend_loop ::
  "('s, 't) ascent_ctx \<Rightarrow> int \<Rightarrow> gasmix \<Rightarrow> ('s, 't) ascent \<Rightarrow> ('s, 't) ascent" where
  "ascend_loop c level mix a =
     (let a' = ascend_step c level mix a
      in if a_depth a' > level then ascend_loop c level mix a' else a')"
  by pat_completeness auto
termination
proof (relation "measure (\<lambda>(c, level, mix, a). nat (a_depth a - level))")
  show "wf (measure (\<lambda>(c, level, mix, a). nat (a_depth a - level)))" by simp
next
  fix c :: "('s, 't) ascent_ctx" and level mix and a x :: "('s, 't) ascent"
  assume x: "x = ascend_step c level mix a" and gt: "level < a_depth x"
  have "16 \<le> ascend_velocity (a_depth a) (c_avg_depth c) (c_bottom_time c)"
    by (rule ascend_velocity_pos)
  then have "a_depth x < a_depth a"
    using gt unfolding x a_depth_ascend_step by (simp split: if_splits)
  then show "((c, level, mix, x), (c, level, mix, a)) \<in> measure (\<lambda>(c, level, mix, a). nat (a_depth a - level))"
    using gt by simp
qed

declare ascend_loop.simps [simp del]

text \<open>
  The loop \<^verbatim>\<open>while (trial_depth > stoplevels[stopidx])\<close> of a trial: whether the way to
  \<open>level\<close> is clear, the tolerance and the tissues afterwards.
\<close>

function trial_loop ::
  "('s, 't) ascent_ctx \<Rightarrow> int \<Rightarrow> gasmix \<Rightarrow> int \<Rightarrow> 't option \<Rightarrow> 's \<Rightarrow> bool \<times> 't option \<times> 's" where
  "trial_loop c level mix trial_depth tol deco =
     (if trial_depth > level then
        (let deltad = ascend_velocity trial_depth (c_avg_depth c) (c_bottom_time c) * TIMESTEP;
             (tol', deco') = add_segment (c_env c) trial_depth (c_dive c) mix TIMESTEP (c_po2 c) deco
         in if ceiling_above (c_env c) tol' (c_surface_pressure c) (c_dive c) (trial_depth - deltad)
            then (False, Some tol', deco')
            else trial_loop c level mix (trial_depth - deltad) (Some tol') deco')
      else (True, tol, deco))"
  by pat_completeness auto
termination
proof (relation "measure (\<lambda>(c, level, mix, trial_depth, tol, deco). nat (trial_depth - level))")
  show "wf (measure (\<lambda>(c, level, mix, trial_depth, tol, deco). nat (trial_depth - level)))" by simp
next
  fix c :: "('s, 't) ascent_ctx" and level mix trial_depth and tol :: "'t option" and deco :: 's
    and x xa and xb :: "'t" and y :: 's
  assume "level < trial_depth"
    and "x = ascend_velocity trial_depth (c_avg_depth c) (c_bottom_time c) * TIMESTEP"
  moreover have "16 \<le> ascend_velocity trial_depth (c_avg_depth c) (c_bottom_time c)"
    by (rule ascend_velocity_pos)
  ultimately show "((c, level, mix, trial_depth - x, Some xb, y), (c, level, mix, trial_depth, tol, deco))
      \<in> measure (\<lambda>(c, level, mix, trial_depth, tol, deco). nat (trial_depth - level))"
    by (simp add: TIMESTEP_def)
qed

declare trial_loop.simps [simp del]

text \<open>
  The loop \<^verbatim>\<open>while (1)\<close> that waits at a stop: a trial from the current depth, the tissues
  restored from \<open>cache\<close> (the value that \<^verbatim>\<open>restore_deco_state\<close> returns is dropped),
  and, when the way is not clear, a minute at the stop and a new cache. The loop ends
  only when a trial is clear; a run that waits for ever has no result.
\<close>

partial_function (option) deco_wait ::
  "('s, 't) ascent_ctx \<Rightarrow> int \<Rightarrow> gasmix \<Rightarrow> 't option \<times> 's \<Rightarrow> ('s, 't) ascent \<Rightarrow> ('s, 't) ascent option" where
  "deco_wait c level mix cache a =
     (let (clear_to_ascend, tol, deco_trial) =
            trial_loop c level mix (a_depth a) (a_tissue_tolerance a) (a_deco a);
          a1 = a\<lparr>a_tissue_tolerance := tol, a_deco := snd cache\<rparr>
      in if clear_to_ascend then Some a1
         else
           (let a2 = (if \<not> a_stopping a1 then add_waypoint (c_po2 c) True a1 else a1);
                (tol', deco') = add_segment (c_env c) (a_depth a2) (c_dive c) mix DECOTIMESTEP (c_po2 c) (a_deco a2);
                a3 = a2\<lparr>a_tissue_tolerance := Some tol', a_deco := deco',
                        a_clock := a_clock a2 + DECOTIMESTEP\<rparr>
            in deco_wait c level mix (Some tol', deco') a3))"

declare deco_wait.simps [code]

text \<open>Reading a cell of \<^verbatim>\<open>stoplevels\<close>: a cell that was never written has no value.\<close>

definition rd_cell :: "int option list \<Rightarrow> int \<Rightarrow> int option" where
  "rd_cell xs i = (case rd xs i of Some (Some v) \<Rightarrow> Some v | _ \<Rightarrow> None)"

definition current_mix :: "dive \<Rightarrow> int \<Rightarrow> gasmix option" where
  "current_mix d idx = map_option cyl_gasmix (rd (cylinder d) idx)"

text \<open>
  \<^verbatim>\<open>if (gi >= 0 && stoplevels[stopidx] == gaschanges[gi].depth) { ... }\<close>: the way point
  of the gas change and the switch to its cylinder.
\<close>

definition gas_switch :: "('s, 't) ascent_ctx \<Rightarrow> int \<Rightarrow> ('s, 't) ascent \<Rightarrow> ('s, 't) ascent option" where
  "gas_switch c level a =
     (if a_gi a \<ge> 0 then
        (case rd (c_gaschanges c) (a_gi a) of
           None \<Rightarrow> None
         | Some gc \<Rightarrow>
             if level = depth gc then
               (case current_mix (c_dive c) (gasidx gc) of
                  None \<Rightarrow> None
                | Some mix \<Rightarrow>
                    Some ((add_waypoint (c_po2 c) True a)
                           \<lparr>a_current_cylinder := gasidx gc, a_gas := mix, a_gi := a_gi a - 1\<rparr>))
             else Some a)
      else Some a)"

text \<open>
  One round of the outer loop \<^verbatim>\<open>while (1)\<close> of \<^verbatim>\<open>plan\<close> with \<^verbatim>\<open>stopidx\<close> on entry. The
  result says whether the surface was reached (the \<^verbatim>\<open>break\<close>). \<^verbatim>\<open>stopidx\<close> is unsigned;
  decremented at 0 it would index far outside \<^verbatim>\<open>stoplevels\<close>, which has no result.
\<close>

definition ascent_round ::
  "('s, 't) ascent_ctx \<Rightarrow> nat \<Rightarrow> ('s, 't) ascent \<Rightarrow> (bool \<times> ('s, 't) ascent) option" where
  "ascent_round c stopidx a =
     do {
       level \<leftarrow> rd_cell (c_stoplevels c) (int stopidx);
       mix \<leftarrow> current_mix (c_dive c) (a_current_cylinder a);
       let a1 = ascend_loop c level mix a;
       if a_depth a1 \<le> 0 then Some (True, a1)
       else do {
         a2 \<leftarrow> gas_switch c level a1;
         if stopidx = 0 then None
         else do {
           level' \<leftarrow> rd_cell (c_stoplevels c) (int (stopidx - 1));
           mix' \<leftarrow> current_mix (c_dive c) (a_current_cylinder a2);
           a3 \<leftarrow> deco_wait c level' mix' (a_tissue_tolerance a2, a_deco a2) a2;
           Some (False, if a_stopping a3 then add_waypoint (c_po2 c) False a3 else a3)
         }
       }
     }"

text \<open>The outer loop, from \<^verbatim>\<open>stopidx\<close> down.\<close>

fun ascent_loop ::
  "('s, 't) ascent_ctx \<Rightarrow> nat \<Rightarrow> ('s, 't) ascent \<Rightarrow> ('s, 't) ascent option" where
  "ascent_loop c 0 a =
     (case ascent_round c 0 a of
        None \<Rightarrow> None
      | Some (surfaced, a') \<Rightarrow> if surfaced then Some a' else None)"
| "ascent_loop c (Suc stopidx) a =
     (case ascent_round c (Suc stopidx) a of
        None \<Rightarrow> None
      | Some (surfaced, a') \<Rightarrow> if surfaced then Some a' else ascent_loop c stopidx a')"

subsection \<open>\<^verbatim>\<open>plan\<close>\<close>

text \<open>What a call of \<^verbatim>\<open>plan\<close> leaves behind.\<close>

record ('s, 't) plan_result =
  r_diveplan :: diveplan
  r_divep :: "dive option"
  r_cached_data :: "('t option \<times> 's) option"
  r_deco :: 's
  r_errors :: "plan_error list"

text \<open>
  The search \<^verbatim>\<open>for (stopidx = 0; stopidx < sizeof(decostoplevels) / sizeof(int); stopidx++)\<close>
  for the first fixed level at or below the depth, and the step back.
\<close>

definition first_stopidx :: "int list \<Rightarrow> int \<Rightarrow> nat" where
  "first_stopidx levels depth_mm =
     (let stopidx = length (takeWhile (\<lambda>l. \<not> l \<ge> depth_mm) levels)
      in if stopidx > 0 then stopidx - 1 else stopidx)"

text \<open>
  The part of \<^verbatim>\<open>plan\<close> after the cylinder of the gas at the last sample is known:
  \<open>current_cylinder\<close> and the errors reported so far are arguments. \<open>levels\<close> is the table
  \<^verbatim>\<open>decostoplevels\<close> at the time of the call. Without deco the plan gets one segment to
  the surface and the dive is created again; with deco the ascent is simulated from the
  last sample.
\<close>

definition plan_from ::
  "('s, 't) planner_env \<Rightarrow> int list \<Rightarrow> diveplan \<Rightarrow> ('t option \<times> 's) option \<Rightarrow> dive \<Rightarrow> dive \<Rightarrow> bool \<Rightarrow>
     's \<Rightarrow> gasmix \<Rightarrow> int \<Rightarrow> plan_error list \<Rightarrow> ('s, 't) plan_result option" where
  "plan_from env levels diveplan cached_data d master_dive add_deco deco gas current_cylinder errors =
     (let smp = last (dc_sample d);
          po2 = s_po2 smp;
          depth_mm = s_depth smp;
          avg_depth = average_depth env diveplan;
          last_ascend_rate = ascend_velocity depth_mm avg_depth (indeterminate env)
      in if \<not> add_deco then
           (let transitiontime = cdiv depth_mm 75;
                diveplan' = fst (plan_add_segment diveplan transitiontime 0 gas po2 False);
                (d', errors') = create_dive_from_plan env diveplan' master_dive errors
            in Some \<lparr>r_diveplan = diveplan', r_divep = d', r_cached_data = cached_data,
                      r_deco = deco, r_errors = errors'\<rparr>)
         else
           do {
             (tol, deco1, cached_data', errors1) \<leftarrow> tissue_at_end env d cached_data deco errors;
             (gcs, best_first_ascend_cylinder) \<leftarrow> analyze_gaslist diveplan d depth_mm current_cylinder;
             let stopidx0 = first_stopidx levels depth_mm;
             stoplevels \<leftarrow> (if stopidx0 + 1 \<le> length levels
                            then sort_stops (take (stopidx0 + 1) levels) gcs else None);
             let stopidx = stopidx0 + length gcs;
             let t = s_time smp;
             (stopping, cyl, gas') \<leftarrow>
                (if best_first_ascend_cylinder \<noteq> current_cylinder
                 then map_option (\<lambda>m. (True, best_first_ascend_cylinder, m))
                        (current_mix d best_first_ascend_cylinder)
                 else Some (False, current_cylinder, gas));
             let c = \<lparr>c_env = env, c_dive = d, c_po2 = po2, c_avg_depth = avg_depth,
                       c_bottom_time = t, c_surface_pressure = surface_pressure diveplan,
                       c_stoplevels = stoplevels, c_gaschanges = gcs\<rparr>;
             let a0 = \<lparr>a_diveplan = diveplan, a_clock = t, a_previous_point_time = t,
                        a_depth = depth_mm, a_stopping = stopping,
                        a_last_ascend_rate = last_ascend_rate, a_tissue_tolerance = tol,
                        a_deco = deco1, a_gas = gas', a_current_cylinder = cyl,
                        a_gi = int (length gcs) - 1\<rparr>;
             a \<leftarrow> ascent_loop c stopidx a0;
             let diveplan' = fst (plan_add_segment (a_diveplan a)
                                   (a_clock a - a_previous_point_time a) 0 (a_gas a) po2 False);
             let (d', errors') = create_dive_from_plan env diveplan' master_dive errors1;
             Some \<lparr>r_diveplan = diveplan', r_divep = d', r_cached_data = cached_data',
                    r_deco = a_deco a, r_errors = errors'\<rparr>
           })"

text \<open>
  \<^verbatim>\<open>if (!diveplan->surface_pressure) diveplan->surface_pressure = SURFACE_PRESSURE;\<close>
\<close>

definition with_default_surface_pressure :: "diveplan \<Rightarrow> diveplan" where
  "with_default_surface_pressure diveplan =
     (if surface_pressure diveplan = 0 then diveplan\<lparr>surface_pressure := SURFACE_PRESSURE\<rparr>
      else diveplan)"

text \<open>
  \<^verbatim>\<open>plan(diveplan, cached_datap, divep, master_dive, add_deco, show_disclaimer)\<close>. The
  tissues of the decompression module and the errors reported so far are arguments. A
  result \<open>None\<close> stands for a run that does not return: an endless wait at a stop, a
  failed \<^verbatim>\<open>assert\<close>, or an access outside an array.
\<close>

definition plan ::
  "('s, 't) planner_env \<Rightarrow> int list \<Rightarrow> diveplan \<Rightarrow> ('t option \<times> 's) option \<Rightarrow> dive option \<Rightarrow> dive \<Rightarrow>
     bool \<Rightarrow> bool \<Rightarrow> 's \<Rightarrow> plan_error list \<Rightarrow> ('s, 't) plan_result option" where
  "plan env levels diveplan0 cached_data divep master_dive add_deco show_disclaimer deco errors0 =
     (let diveplan = with_default_surface_pressure diveplan0;
          (d0, errors) = create_dive_from_plan env diveplan master_dive errors0
      in case d0 of
           None \<Rightarrow> Some \<lparr>r_diveplan = diveplan, r_divep = None, r_cached_data = cached_data,
                          r_deco = deco, r_errors = errors\<rparr>
         | Some d \<Rightarrow>
             (case rd (cylinder d) 0 of
                None \<Rightarrow> None
              | Some cyl0 \<Rightarrow>
                  (let gas = get_gas_from_events env (dc_events d) (s_time (last (dc_sample d)))
                               (cyl_gasmix cyl0)
                   in if get_gasidx d gas = - 1
                      then plan_from env levels diveplan cached_data d master_dive add_deco deco gas
                             0 (errors @ [CantFindGas gas])
                      else plan_from env levels diveplan cached_data d master_dive add_deco deco gas
                             (get_gasidx d gas) errors)))"

text \<open>
  The absolute times of the way points of a plan in list order, without the way points
  of time 0 (the gas declarations).
\<close>

definition plan_times :: "diveplan \<Rightarrow> int list" where
  "plan_times diveplan = filter (\<lambda>t. t \<noteq> 0) (map dp_time (dp diveplan))"

subsection \<open>An instance of the outside functions\<close>

text \<open>
  A small environment for the examples. The average depth is half the largest depth of
  the plan; \<open>interpolate\<close> is linear; a gas switch event holds the oxygen of the cylinder
  in percent and nothing of its helium; the tissues are a number of seconds still to be
  spent at or below 3 m, which grows with the time spent deeper than 3 m, and the
  ceiling lies above a level exactly when that number is positive and the level is
  shallower than 2.9 m.
\<close>

definition example_env :: "(int, int) planner_env" where
  "example_env =
     \<lparr>average_depth = (\<lambda>diveplan. foldl max 0 (map dp_depth (dp diveplan)) div 2),
      interpolate = (\<lambda>a b part whole. if whole = 0 then a else a + (b - a) * part div whole),
      gas_switch_event = (\<lambda>d seconds idx.
         \<lparr>ev_time = seconds, ev_name = ''gaschange'',
          ev_value = (case rd (cylinder d) idx of
                        None \<Rightarrow> 0
                      | Some c \<Rightarrow> (o2 (cyl_gasmix c) + 5) div 10)\<rparr>),
      get_gasmix_from_event = (\<lambda>e. \<lparr>o2 = 10 * ev_value e, he = 0\<rparr>),
      init_decompression = (\<lambda>d. (0, 0)),
      add_segment = (\<lambda>depth_mm d mix duration po2 s.
         if depth_mm > 3000 then (s + duration, s + duration)
         else (max 0 (s - duration), max 0 (s - duration))),
      ceiling_above = (\<lambda>tol surface d level. tol > 0 \<and> level < 2900),
      indeterminate = 0\<rparr>"

text \<open>A cylinder of air, one of a mix with helium, and master dives that hold them.\<close>

definition air_cylinder :: cylinder_t where
  "air_cylinder =
     \<lparr>cyl_description = ''12l'', cyl_size = 12000, cyl_workingpressure = 232000,
      cyl_gasmix = \<lparr>o2 = 209, he = 0\<rparr>, cyl_start = 232000, cyl_end = 232000,
      cyl_depth = 56000, cyl_gas_used = 0\<rparr>"

definition helium_cylinder :: cylinder_t where
  "helium_cylinder =
     \<lparr>cyl_description = ''D12'', cyl_size = 24000, cyl_workingpressure = 232000,
      cyl_gasmix = \<lparr>o2 = 500, he = 300\<rparr>, cyl_start = 232000, cyl_end = 232000,
      cyl_depth = 22000, cyl_gas_used = 0\<rparr>"

definition master_of :: "cylinder_t list \<Rightarrow> dive" where
  "master_of cyls =
     \<lparr>dive_when = 0, dc_surface_pressure = 0, cylinder = cyls, dc_sample = [], dc_events = []\<rparr>"

definition plan_of :: "divedatapoint list \<Rightarrow> diveplan" where
  "plan_of ws =
     \<lparr>when = 0, surface_pressure = 0, bottomsac = 20000, decosac = 17000, gflow = 30, gfhigh = 70,
      dp = ws\<rparr>"

definition entered_point :: "int \<Rightarrow> int \<Rightarrow> gasmix \<Rightarrow> divedatapoint" where
  "entered_point t depth_mm mix =
     \<lparr>dp_time = t, dp_depth = depth_mm, dp_gasmix = mix, dp_po2 = 0, dp_entered = True\<rparr>"











subsection \<open>Stating the fall-back to cylinder 0\<close>







definition declared_helium_plan :: diveplan where
  "declared_helium_plan =
     plan_of [\<lparr>dp_time = 0, dp_depth = 30000, dp_gasmix = \<lparr>o2 = 500, he = 300\<rparr>, dp_po2 = 0,
                dp_entered = True\<rparr>,
              entered_point 2 3200 \<lparr>o2 = 209, he = 0\<rparr>, entered_point 5 3200 \<lparr>o2 = 500, he = 300\<rparr>]"

subsection \<open>What \<^verbatim>\<open>sort_stops\<close> computes\<close>

lemma wr_Some: "0 < p \<Longrightarrow> p \<le> length xs \<Longrightarrow> wr xs (int p - 1) v = Some (xs[p - 1 := v])"
  by (auto simp: wr_def nat_diff_distrib)

lemma drop_upd: "0 < p \<Longrightarrow> p \<le> length xs \<Longrightarrow> drop (p - 1) (xs[p - 1 := v]) = v # drop p xs"
  by (cases p) (auto simp: upd_conv_take_nth_drop)

lemma copy_gstops_eq:
  "m \<le> length gs \<Longrightarrow> m \<le> p \<Longrightarrow> p \<le> length sl \<Longrightarrow>
   copy_gstops gs (int p - 1) (int m - 1) sl =
     Some (int (p - m) - 1, take (p - m) sl @ map Some (take m (map depth gs)) @ drop p sl)"
proof (induction m arbitrary: p sl)
  case 0
  then show ?case by (subst copy_gstops.simps) simp
next
  case (Suc m)
  let ?v = "depth (gs ! m)"
  let ?sl = "sl[p - 1 := Some ?v]"
  have p: "0 < p" "p \<le> length sl" using Suc.prems by auto
  have m: "m < length gs" using Suc.prems by auto
  have r: "rd gs (int (Suc m) - 1) = Some (gs ! m)" using m by (simp add: rd_def)
  have w: "wr sl (int p - 1) (Some ?v) = Some ?sl" using p by (rule wr_Some)
  have idx: "int p - 1 - 1 = int (p - 1) - 1" "int (Suc m) - 1 - 1 = int m - 1" using p by auto
  have IH: "copy_gstops gs (int (p - 1) - 1) (int m - 1) ?sl =
     Some (int (p - 1 - m) - 1, take (p - 1 - m) ?sl @ map Some (take m (map depth gs)) @ drop (p - 1) ?sl)"
    using Suc.prems by (intro Suc.IH) auto
  have t: "take (p - 1 - m) ?sl = take (p - Suc m) sl" by simp
  have d: "drop (p - 1) ?sl = Some ?v # drop p sl" using p by (rule drop_upd)
  have g: "take (Suc m) (map depth gs) = take m (map depth gs) @ [?v]"
    using m by (simp add: take_Suc_conv_app_nth)
  have "copy_gstops gs (int p - 1) (int (Suc m) - 1) sl = copy_gstops gs (int (p - 1) - 1) (int m - 1) ?sl"
    by (subst copy_gstops.simps) (simp only: r w idx option.case, simp)
  then show ?case by (simp only: IH t d g) simp
qed

lemma copy_dstops_eq:
  "n \<le> length ds \<Longrightarrow> n \<le> p \<Longrightarrow> p \<le> length sl \<Longrightarrow>
   copy_dstops ds (int p - 1) (int n - 1) sl =
     Some (int (p - n) - 1, take (p - n) sl @ map Some (take n ds) @ drop p sl)"
proof (induction n arbitrary: p sl)
  case 0
  then show ?case by (subst copy_dstops.simps) simp
next
  case (Suc n)
  let ?v = "ds ! n"
  let ?sl = "sl[p - 1 := Some ?v]"
  have p: "0 < p" "p \<le> length sl" using Suc.prems by auto
  have n: "n < length ds" using Suc.prems by auto
  have r: "rd ds (int (Suc n) - 1) = Some (ds ! n)" using n by (simp add: rd_def)
  have w: "wr sl (int p - 1) (Some ?v) = Some ?sl" using p by (rule wr_Some)
  have idx: "int p - 1 - 1 = int (p - 1) - 1" "int (Suc n) - 1 - 1 = int n - 1" using p by auto
  have IH: "copy_dstops ds (int (p - 1) - 1) (int n - 1) ?sl =
     Some (int (p - 1 - n) - 1, take (p - 1 - n) ?sl @ map Some (take n ds) @ drop (p - 1) ?sl)"
    using Suc.prems by (intro Suc.IH) auto
  have t: "take (p - 1 - n) ?sl = take (p - Suc n) sl" by simp
  have d: "drop (p - 1) ?sl = Some ?v # drop p sl" using p by (rule drop_upd)
  have g: "take (Suc n) ds = take n ds @ [?v]"
    using n by (simp add: take_Suc_conv_app_nth)
  have "copy_dstops ds (int p - 1) (int (Suc n) - 1) sl = copy_dstops ds (int (p - 1) - 1) (int n - 1) ?sl"
    by (subst copy_dstops.simps) (simp only: r w idx option.case, simp)
  then show ?case by (simp only: IH t d g) simp
qed

lemma zero_fill_eq:
  "p \<le> length sl \<Longrightarrow> zero_fill (int p - 1) sl = Some (replicate p (Some 0) @ drop p sl)"
proof (induction p arbitrary: sl)
  case 0
  then show ?case by (subst zero_fill.simps) simp
next
  case (Suc p)
  let ?sl = "sl[p := Some 0]"
  have w: "wr sl (int (Suc p) - 1) (Some 0) = Some ?sl" using Suc.prems by (simp add: wr_def)
  have IH: "zero_fill (int p - 1) ?sl = Some (replicate p (Some 0) @ drop p ?sl)"
    using Suc.prems by (intro Suc.IH) auto
  have d: "drop p ?sl = Some 0 # drop (Suc p) sl" using Suc.prems by (simp add: upd_conv_take_nth_drop)
  have "zero_fill (int (Suc p) - 1) sl = zero_fill (int p - 1) ?sl"
    by (subst zero_fill.simps) (simp only: w option.case, simp)
  then show ?case by (simp only: IH d) (simp add: replicate_append_same)
qed

lemma length_merged: "n \<le> length D \<Longrightarrow> m \<le> length G \<Longrightarrow> length (merged D G n m) \<le> n + m"
  by (induction D G n m rule: merged.induct) auto

lemma length_merged_pos: "0 < n \<Longrightarrow> n \<le> length D \<Longrightarrow> 0 < length (merged D G n m)"
  by (induction D G n m rule: merged.induct) auto

lemma merge_loop_step:
  assumes "n < length D" "m < length gs" "q < length sl"
  shows "merge_loop D gs (int q) (int m) (int n) sl =
     (if D ! n > depth (gs ! m) then
        (if n = 0 then copy_gstops gs (int q - 1) (int m) (sl[q := Some (D ! n)])
         else merge_loop D gs (int q - 1) (int m) (int n - 1) (sl[q := Some (D ! n)]))
      else if D ! n = depth (gs ! m) then
        (if n = 0 then copy_gstops gs (int q - 1) (int m - 1) (sl[q := Some (D ! n)])
         else if m = 0 then copy_dstops D (int q - 1) (int n - 1) (sl[q := Some (D ! n)])
         else merge_loop D gs (int q - 1) (int m - 1) (int n - 1) (sl[q := Some (D ! n)]))
      else
        (if m = 0 then copy_dstops D (int q - 1) (int n) (sl[q := Some (depth (gs ! m))])
         else merge_loop D gs (int q - 1) (int m - 1) (int n) (sl[q := Some (depth (gs ! m))])))"
proof -
  have rD: "rd D (int n) = Some (D ! n)" using assms by (simp add: rd_def)
  have rG: "rd gs (int m) = Some (gs ! m)" using assms by (simp add: rd_def)
  have w: "\<And>v. wr sl (int q) (Some v) = Some (sl[q := Some v])" using assms by (simp add: wr_def)
  consider (gt) "D ! n > depth (gs ! m)" | (eq) "D ! n = depth (gs ! m)" | (lt) "D ! n < depth (gs ! m)"
    by linarith
  then show ?thesis
  proof cases
    case gt
    then show ?thesis by (subst merge_loop.simps) (simp add: rD rG w)
  next
    case eq
    then show ?thesis by (subst merge_loop.simps) (auto simp add: rD rG w)
  next
    case lt
    then show ?thesis by (subst merge_loop.simps) (simp add: rD rG w)
  qed
qed

lemma merge_loop_eq:
  "0 < n \<Longrightarrow> 0 < m \<Longrightarrow> n \<le> length D \<Longrightarrow> m \<le> length gs \<Longrightarrow> n + m \<le> p \<Longrightarrow> p \<le> length sl \<Longrightarrow>
   merge_loop D gs (int p - 1) (int m - 1) (int n - 1) sl =
     Some (int (p - length (merged D (map depth gs) n m)) - 1,
           take (p - length (merged D (map depth gs) n m)) sl @ map Some (merged D (map depth gs) n m) @ drop p sl)"
proof (induction D "map depth gs" n m arbitrary: p sl rule: merged.induct)
  case (1 D m)
  then show ?case by simp
next
  case (2 D n)
  then show ?case by simp
next
  case (3 D n m)
  let ?G = "map depth gs"
  let ?lhs = "merge_loop D gs (int p - 1) (int (Suc m) - 1) (int (Suc n) - 1) sl"
  obtain q where q: "p = Suc q" using "3.prems" by (cases p) auto
  have ql: "q < length sl" using "3.prems" q by simp
  have n: "n < length D" and m: "m < length gs" using "3.prems" by auto
  have Gm: "?G ! m = depth (gs ! m)" using m by simp
  have e: "int p - 1 = int q" "int (Suc m) - 1 = int m" "int (Suc n) - 1 = int n" using q by simp_all
  have d: "\<And>v. drop q (sl[q := Some v]) = Some v # drop p sl" using ql q by (simp add: upd_conv_take_nth_drop)
  note step = merge_loop_step [OF n m ql]
  consider (gt) "D ! n > ?G ! m" | (eq) "D ! n = ?G ! m" | (lt) "D ! n < ?G ! m" by linarith
  then show ?case
  proof cases
    case gt
    let ?sl = "sl[q := Some (D ! n)]"
    show ?thesis
    proof (cases "n = 0")
      case True
      have S: "?lhs = copy_gstops gs (int q - 1) (int (Suc m) - 1) ?sl"
        unfolding e by (subst step) (use gt True Gm in simp)
      have C: "copy_gstops gs (int q - 1) (int (Suc m) - 1) ?sl =
          Some (int (q - Suc m) - 1, take (q - Suc m) ?sl @ map Some (take (Suc m) ?G) @ drop q ?sl)"
        using "3.prems" q by (intro copy_gstops_eq) auto
      show ?thesis unfolding S C using gt True q m by (simp add: d)
    next
      case False
      have S: "?lhs = merge_loop D gs (int q - 1) (int (Suc m) - 1) (int n - 1) ?sl"
        unfolding e by (subst step) (use gt False Gm in simp)
      have IH: "merge_loop D gs (int q - 1) (int (Suc m) - 1) (int n - 1) ?sl =
        Some (int (q - length (merged D ?G n (Suc m))) - 1,
           take (q - length (merged D ?G n (Suc m))) ?sl @ map Some (merged D ?G n (Suc m)) @ drop q ?sl)"
        using gt False "3.prems" q by (intro "3.hyps"(1)) auto
      have L: "0 < length (merged D ?G n (Suc m))" using False n by (intro length_merged_pos) auto
      show ?thesis unfolding S IH using gt q L by (simp add: d)
    qed
  next
    case eq
    let ?sl = "sl[q := Some (D ! n)]"
    show ?thesis
    proof (cases "n = 0")
      case True
      have S: "?lhs = copy_gstops gs (int q - 1) (int m - 1) ?sl"
        unfolding e by (subst step) (use eq True Gm in simp)
      have C: "copy_gstops gs (int q - 1) (int m - 1) ?sl =
          Some (int (q - m) - 1, take (q - m) ?sl @ map Some (take m ?G) @ drop q ?sl)"
        using "3.prems" q by (intro copy_gstops_eq) auto
      show ?thesis unfolding S C using eq True q m by (simp add: d)
    next
      case False
      note n0 = False
      show ?thesis
      proof (cases "m = 0")
        case True
        have S: "?lhs = copy_dstops D (int q - 1) (int n - 1) ?sl"
          unfolding e by (subst step) (use eq True n0 Gm in simp)
        have C: "copy_dstops D (int q - 1) (int n - 1) ?sl =
          Some (int (q - n) - 1, take (q - n) ?sl @ map Some (take n D) @ drop q ?sl)"
          using "3.prems" q by (intro copy_dstops_eq) auto
        have M: "merged D ?G n 0 = take n D" using n0 by (cases n) auto
        show ?thesis unfolding S C using eq True n0 q n M by (simp add: d)
      next
        case False
        have S: "?lhs = merge_loop D gs (int q - 1) (int m - 1) (int n - 1) ?sl"
          unfolding e by (subst step) (use eq False n0 Gm in simp)
        have IH: "merge_loop D gs (int q - 1) (int m - 1) (int n - 1) ?sl =
          Some (int (q - length (merged D ?G n m)) - 1,
           take (q - length (merged D ?G n m)) ?sl @ map Some (merged D ?G n m) @ drop q ?sl)"
          using eq False n0 "3.prems" q by (intro "3.hyps"(2)) auto
        have L: "0 < length (merged D ?G n m)" using n0 n by (intro length_merged_pos) auto
        show ?thesis unfolding S IH using eq q L by (simp add: d)
      qed
    qed
  next
    case lt
    let ?sl = "sl[q := Some (?G ! m)]"
    show ?thesis
    proof (cases "m = 0")
      case True
      have S: "?lhs = copy_dstops D (int q - 1) (int (Suc n) - 1) ?sl"
        unfolding e by (subst step) (use lt True Gm in simp)
      have C: "copy_dstops D (int q - 1) (int (Suc n) - 1) ?sl =
          Some (int (q - Suc n) - 1, take (q - Suc n) ?sl @ map Some (take (Suc n) D) @ drop q ?sl)"
        using "3.prems" q by (intro copy_dstops_eq) auto
      show ?thesis unfolding S C using lt True q n by (simp add: d)
    next
      case False
      have S: "?lhs = merge_loop D gs (int q - 1) (int m - 1) (int (Suc n) - 1) ?sl"
        unfolding e by (subst step) (use lt False Gm in simp)
      have IH: "merge_loop D gs (int q - 1) (int m - 1) (int (Suc n) - 1) ?sl =
        Some (int (q - length (merged D ?G (Suc n) m)) - 1,
           take (q - length (merged D ?G (Suc n) m)) ?sl @ map Some (merged D ?G (Suc n) m) @ drop q ?sl)"
        using lt False "3.prems" q by (intro "3.hyps"(3)) auto
      have L: "0 < length (merged D ?G (Suc n) m)" using n by (intro length_merged_pos) auto
      show ?thesis unfolding S IH using lt q L by (simp add: d)
    qed
  qed
qed

lemma take_le_nth: "sorted xs \<Longrightarrow> n < length xs \<Longrightarrow> y \<in> set (take n xs) \<Longrightarrow> y \<le> xs ! n"
  by (auto simp: in_set_conv_nth sorted_iff_nth_mono)

lemma take_Suc_le_nth: "sorted xs \<Longrightarrow> n < length xs \<Longrightarrow> y \<in> set (take (Suc n) xs) \<Longrightarrow> y \<le> xs ! n"
  by (auto simp: in_set_conv_nth sorted_iff_nth_mono less_Suc_eq_le)

lemma add_mset_sup_left: "x \<notin># B \<Longrightarrow> add_mset x (A \<union># B) = add_mset x A \<union># B"
  by (rule multiset_eqI) (auto simp: not_in_iff)

lemma add_mset_sup_right: "x \<notin># A \<Longrightarrow> add_mset x (A \<union># B) = A \<union># add_mset x B"
  by (rule multiset_eqI) (auto simp: not_in_iff)

lemma add_mset_sup_both: "add_mset x (A \<union># B) = add_mset x A \<union># add_mset x B"
  by (rule multiset_eqI) auto

lemma mset_merged:
  "sorted D \<Longrightarrow> sorted G \<Longrightarrow> n \<le> length D \<Longrightarrow> m \<le> length G \<Longrightarrow>
   mset (merged D G n m) = mset (take n D) \<union># mset (take m G)"
proof (induction D G n m rule: merged.induct)
  case (1 D G m)
  then show ?case by simp
next
  case (2 D G n)
  then show ?case by simp
next
  case (3 D G n m)
  have n: "n < length D" and m: "m < length G" using "3.prems" by auto
  have tD: "mset (take (Suc n) D) = add_mset (D ! n) (mset (take n D))"
    using n by (simp add: take_Suc_conv_app_nth)
  have tG: "mset (take (Suc m) G) = add_mset (G ! m) (mset (take m G))"
    using m by (simp add: take_Suc_conv_app_nth)
  consider (gt) "D ! n > G ! m" | (eq) "D ! n = G ! m" | (lt) "D ! n < G ! m" by linarith
  then show ?case
  proof cases
    case gt
    have "D ! n \<notin> set (take (Suc m) G)"
      using take_Suc_le_nth [OF "3.prems"(2) m, of "D ! n"] gt by auto
    then have notin: "D ! n \<notin># mset (take (Suc m) G)" by simp
    have IH: "mset (merged D G n (Suc m)) = mset (take n D) \<union># mset (take (Suc m) G)"
      using gt "3.prems" n by (intro "3.IH"(1)) auto
    have "mset (merged D G (Suc n) (Suc m)) = add_mset (D ! n) (mset (merged D G n (Suc m)))"
      using gt by simp
    also have "\<dots> = add_mset (D ! n) (mset (take n D) \<union># mset (take (Suc m) G))"
      by (simp only: IH)
    also have "\<dots> = add_mset (D ! n) (mset (take n D)) \<union># mset (take (Suc m) G)"
      using notin by (rule add_mset_sup_left)
    finally show ?thesis by (simp only: tD)
  next
    case eq
    have IH: "mset (merged D G n m) = mset (take n D) \<union># mset (take m G)"
      using eq "3.prems" n m by (intro "3.IH"(2)) auto
    have "mset (merged D G (Suc n) (Suc m)) = add_mset (D ! n) (mset (merged D G n m))"
      using eq by simp
    also have "\<dots> = add_mset (D ! n) (mset (take n D) \<union># mset (take m G))"
      by (simp only: IH)
    also have "\<dots> = add_mset (D ! n) (mset (take n D)) \<union># add_mset (D ! n) (mset (take m G))"
      by (rule add_mset_sup_both)
    finally show ?thesis using eq by (simp only: tD tG)
  next
    case lt
    have "G ! m \<notin> set (take (Suc n) D)"
      using take_Suc_le_nth [OF "3.prems"(1) n, of "G ! m"] lt by auto
    then have notin: "G ! m \<notin># mset (take (Suc n) D)" by simp
    have IH: "mset (merged D G (Suc n) m) = mset (take (Suc n) D) \<union># mset (take m G)"
      using lt "3.prems" m by (intro "3.IH"(3)) auto
    have "mset (merged D G (Suc n) (Suc m)) = add_mset (G ! m) (mset (merged D G (Suc n) m))"
      using lt by simp
    also have "\<dots> = add_mset (G ! m) (mset (take (Suc n) D) \<union># mset (take m G))"
      by (simp only: IH)
    also have "\<dots> = mset (take (Suc n) D) \<union># add_mset (G ! m) (mset (take m G))"
      using notin by (rule add_mset_sup_right)
    finally show ?thesis by (simp only: tG)
  qed
qed

lemma set_merged:
  "sorted D \<Longrightarrow> sorted G \<Longrightarrow> n \<le> length D \<Longrightarrow> m \<le> length G \<Longrightarrow>
   set (merged D G n m) = set (take n D) \<union> set (take m G)"
proof -
  assume a: "sorted D" "sorted G" "n \<le> length D" "m \<le> length G"
  have "set_mset (mset (merged D G n m)) = set_mset (mset (take n D) \<union># mset (take m G))"
    by (simp only: mset_merged [OF a])
  then show ?thesis by simp
qed

lemma sorted_merged:
  "sorted D \<Longrightarrow> sorted G \<Longrightarrow> n \<le> length D \<Longrightarrow> m \<le> length G \<Longrightarrow> sorted (merged D G n m)"
proof (induction D G n m rule: merged.induct)
  case (1 D G m)
  then show ?case by (simp add: sorted_wrt_take)
next
  case (2 D G n)
  then show ?case using sorted_wrt_take [of "(\<le>)" D "Suc n"] by simp
next
  case (3 D G n m)
  have n: "n < length D" and m: "m < length G" using "3.prems" by auto
  note sD = "3.prems"(1) and sG = "3.prems"(2)
  consider (gt) "D ! n > G ! m" | (eq) "D ! n = G ! m" | (lt) "D ! n < G ! m" by linarith
  then show ?case
  proof cases
    case gt
    have S: "sorted (merged D G n (Suc m))" using gt "3.prems" n by (intro "3.IH"(1)) auto
    have E: "set (merged D G n (Suc m)) = set (take n D) \<union> set (take (Suc m) G)"
      using "3.prems" n by (intro set_merged) auto
    have "\<forall>y \<in> set (merged D G n (Suc m)). y \<le> D ! n"
      unfolding E using take_le_nth [OF sD n] take_Suc_le_nth [OF sG m] gt by fastforce
    then show ?thesis using gt S by (simp add: sorted_append)
  next
    case eq
    have S: "sorted (merged D G n m)" using eq "3.prems" n m by (intro "3.IH"(2)) auto
    have E: "set (merged D G n m) = set (take n D) \<union> set (take m G)"
      using "3.prems" n m by (intro set_merged) auto
    have "\<forall>y \<in> set (merged D G n m). y \<le> D ! n"
      unfolding E using take_le_nth [OF sD n] take_le_nth [OF sG m] eq by fastforce
    then show ?thesis using eq S by (simp add: sorted_append)
  next
    case lt
    have S: "sorted (merged D G (Suc n) m)" using lt "3.prems" m by (intro "3.IH"(3)) auto
    have E: "set (merged D G (Suc n) m) = set (take (Suc n) D) \<union> set (take m G)"
      using "3.prems" m by (intro set_merged) auto
    have "\<forall>y \<in> set (merged D G (Suc n) m). y \<le> G ! m"
      unfolding E using take_Suc_le_nth [OF sD n] take_le_nth [OF sG m] lt by fastforce
    then show ?thesis using lt S by (simp add: sorted_append)
  qed
qed

lemma merged_all_0: "merged D G (length D) 0 = D"
  by (cases "length D") auto

lemma sort_stops_eq:
  assumes "dstops \<noteq> [] \<or> gstops = []"
  shows "sort_stops dstops gstops =
     Some (map Some
       (replicate (length dstops + length gstops
            - length (merged dstops (map depth gstops) (length dstops) (length gstops))) 0
        @ merged dstops (map depth gstops) (length dstops) (length gstops)))"
proof (cases "gstops = []")
  case True
  then show ?thesis
    by (simp add: sort_stops_def malloc_ints_def memcpy_ints_def merged_all_0)
next
  case False
  let ?n = "length dstops" and ?m = "length gstops"
  let ?M = "merged dstops (map depth gstops) ?n ?m"
  let ?sl = "malloc_ints (?n + ?m)"
  have n: "0 < ?n" using assms False by simp
  have m: "0 < ?m" using False by simp
  have len: "length ?sl = ?n + ?m" by (simp add: malloc_ints_def)
  have L: "length ?M \<le> ?n + ?m" by (rule length_merged) simp_all
  have LP: "merge_loop dstops gstops (int (?n + ?m) - 1) (int ?m - 1) (int ?n - 1) ?sl =
     Some (int (?n + ?m - length ?M) - 1,
           take (?n + ?m - length ?M) ?sl @ map Some ?M @ drop (?n + ?m) ?sl)"
    using n m len by (intro merge_loop_eq) simp_all
  let ?sl' = "take (?n + ?m - length ?M) ?sl @ map Some ?M @ drop (?n + ?m) ?sl"
  have len': "?n + ?m - length ?M \<le> length ?sl'" using L len by simp
  have ZF: "zero_fill (int (?n + ?m - length ?M) - 1) ?sl' =
      Some (replicate (?n + ?m - length ?M) (Some 0) @ drop (?n + ?m - length ?M) ?sl')"
    using len' by (rule zero_fill_eq)
  have D: "drop (?n + ?m - length ?M) ?sl' = map Some ?M" using L len by simp
  have g: "(length gstops = 0) = False" using False by simp
  have "sort_stops dstops gstops = zero_fill (int (?n + ?m - length ?M) - 1) ?sl'"
    by (simp only: sort_stops_def Let_def g if_False LP option.case prod.case)
  also have "\<dots> = Some (replicate (?n + ?m - length ?M) (Some 0) @ map Some ?M)"
    by (simp only: ZF D)
  also have "\<dots> = Some (map Some (replicate (?n + ?m - length ?M) 0 @ ?M))"
    by simp
  finally show ?thesis .
qed

text \<open>
  Without a fixed stop but with a gas change the loop starts by reading \<^verbatim>\<open>dstops[-1]\<close>;
  \<^verbatim>\<open>plan\<close> always passes at least one fixed stop.
\<close>

lemma sort_stops_no_fixed_stops: "sort_stops [] (g # gs) = None"
  by (simp add: sort_stops_def Let_def merge_loop.simps rd_def)

lemma sorted_pad: "sorted (replicate k (0::int) @ xs) \<longleftrightarrow> sorted xs \<and> (k = 0 \<or> (\<forall>x\<in>set xs. 0 \<le> x))"
  by (cases k) (auto simp: sorted_append)

lemma size_merged:
  assumes "sorted D" "sorted G"
  shows "length D + length G - length (merged D G (length D) (length G)) = size (mset D \<inter># mset G)"
proof -
  have "mset (merged D G (length D) (length G)) = mset D \<union># mset G"
    using mset_merged [OF assms, of "length D" "length G"] by simp
  then have "length (merged D G (length D) (length G)) = size (mset D \<union># mset G)"
    by (metis size_mset)
  moreover have "size (mset D) + size (mset G) = size (mset D \<union># mset G) + size (mset D \<inter># mset G)"
    by (rule size_Un_Int)
  ultimately show ?thesis by simp
qed

text \<open>
  Claim C9 as stated gives every depth common to both inputs a single slot. With the
  last stop at 6 m the table of fixed stops holds 6000 twice, and \<^verbatim>\<open>plan\<close> passes its
  first entries as they are: with a gas change at 6 m the common depth 6000 takes two
  slots of the result.
\<close>

theorem sort_stops_last_stop_6m_counterexample:
  "take 4 (set_last_stop True decostoplevels) = [0, 6000, 6000, 9000] \<and>
   sort_stops (take 4 (set_last_stop True decostoplevels)) [\<lparr>depth = 6000, gasidx = 1\<rparr>]
     = Some (map Some [0, 0, 6000, 6000, 9000]) \<and>
   count_list [0, 0, 6000, 6000, 9000 :: int] 6000 = 2"
  by code_simp

text \<open>
  Claim C9, amended. Whenever there is a fixed stop (or there is no gas change),
  \<^verbatim>\<open>sort_stops\<close> returns an array of exactly \<open>dnr + gnr\<close> written cells: \<open>k\<close> cells
  holding 0 at the front, then the merged ladder. For ascending inputs the ladder is
  ascending and holds every depth as often as the input that has it more often (so a
  depth that is once in each input takes one slot), \<open>k\<close> is the number of pairs of
  equal depths consumed together, and with non-negative depths the whole array is
  non-decreasing.
\<close>

theorem sort_stops_layout:
  assumes "dstops \<noteq> [] \<or> gstops = []"
  shows "\<exists>k ladder.
      sort_stops dstops gstops = Some (map Some (replicate k 0 @ ladder)) \<and>
      k + length ladder = length dstops + length gstops \<and>
      (sorted dstops \<and> sorted (map depth gstops) \<longrightarrow>
         mset ladder = mset dstops \<union># mset (map depth gstops) \<and>
         k = size (mset dstops \<inter># mset (map depth gstops)) \<and>
         sorted ladder \<and>
         ((\<forall>d \<in> set ladder. 0 \<le> d) \<longrightarrow> sorted (replicate k 0 @ ladder)))"
proof -
  let ?G = "map depth gstops"
  let ?M = "merged dstops ?G (length dstops) (length gstops)"
  let ?k = "length dstops + length gstops - length ?M"
  have L: "length ?M \<le> length dstops + length gstops" by (rule length_merged) simp_all
  have 1: "sort_stops dstops gstops = Some (map Some (replicate ?k 0 @ ?M))"
    using assms by (rule sort_stops_eq)
  have 2: "?k + length ?M = length dstops + length gstops" using L by simp
  have 3: "mset ?M = mset dstops \<union># mset ?G" if "sorted dstops" "sorted ?G"
    using mset_merged [OF that, of "length dstops" "length gstops"] by simp
  have 4: "?k = size (mset dstops \<inter># mset ?G)" if "sorted dstops" "sorted ?G"
    using size_merged [OF that] by simp
  have 5: "sorted ?M" if "sorted dstops" "sorted ?G"
    using sorted_merged [OF that, of "length dstops" "length gstops"] by simp
  have 6: "sorted (replicate ?k 0 @ ?M)" if "sorted dstops" "sorted ?G" "\<forall>d \<in> set ?M. 0 \<le> d"
    using 5 that by (simp add: sorted_pad)
  show ?thesis
    apply (rule exI [of _ ?k], rule exI [of _ ?M])
    using 1 2 3 4 5 6 by blast
qed


text \<open>
  Claim C1 as stated takes the fixed stops in descending order. On a descending array
  the result is not in ascending order: the loop reads both arrays from their last
  element and expects the largest depth there.
\<close>

theorem sort_stops_descending_counterexample:
  "sorted (rev [6000, 3000, 0 :: int]) \<and>
   sorted (map depth [\<lparr>depth = 4000, gasidx = 1\<rparr>]) \<and>
   sort_stops [6000, 3000, 0] [\<lparr>depth = 4000, gasidx = 1\<rparr>]
     = Some (map Some [6000, 3000, 0, 4000]) \<and>
   \<not> sorted [6000, 3000, 0, 4000 :: int]"
  by code_simp

lemma count_list_pad: "count_list (replicate k (0::int) @ xs) v = (if v = 0 then k else 0) + count_list xs v"
  by (induction k) auto

lemma count_list_distinct: "distinct xs \<Longrightarrow> count_list xs v = (if v \<in> set xs then 1 else 0)"
  by (induction xs) auto

text \<open>
  Claim C1, amended. For a non-empty ascending array of fixed stops and an ascending
  array of gas changes, all depths non-negative, \<^verbatim>\<open>sort_stops\<close> returns one array in
  ascending order that contains every depth of both inputs and nothing else but 0. A
  depth occurs in it as often as in the input that has it more often, and 0 once more
  for every pair of equal depths that the loop consumes together. So when neither input
  repeats a depth, every depth other than 0 is retained exactly once, also when it is in
  both inputs; a depth that the fixed stops hold twice is retained twice.
\<close>

theorem sort_stops_ascending:
  assumes "dstops \<noteq> []" "sorted dstops" "sorted (map depth gstops)"
    and "\<forall>d \<in> set dstops \<union> set (map depth gstops). 0 \<le> d"
  shows "\<exists>out. sort_stops dstops gstops = Some (map Some out) \<and>
      sorted out \<and>
      set dstops \<union> set (map depth gstops) \<subseteq> set out \<and>
      set out \<subseteq> insert 0 (set dstops \<union> set (map depth gstops)) \<and>
      (\<forall>v. count_list out v =
         max (count_list dstops v) (count_list (map depth gstops) v) +
         (if v = 0 then size (mset dstops \<inter># mset (map depth gstops)) else 0)) \<and>
      (distinct dstops \<and> distinct (map depth gstops) \<longrightarrow>
         (\<forall>v \<in> set out. v \<noteq> 0 \<longrightarrow> count_list out v = 1))"
proof -
  let ?G = "map depth gstops"
  let ?M = "merged dstops ?G (length dstops) (length gstops)"
  let ?k = "length dstops + length gstops - length ?M"
  let ?out = "replicate ?k 0 @ ?M"
  have 1: "sort_stops dstops gstops = Some (map Some ?out)"
    using assms(1) by (intro sort_stops_eq) simp
  have ms: "mset ?M = mset dstops \<union># mset ?G"
    using mset_merged [OF assms(2,3), of "length dstops" "length gstops"] by simp
  have st: "set ?M = set dstops \<union> set ?G"
    using set_merged [OF assms(2,3), of "length dstops" "length gstops"] by simp
  have 2: "sorted ?out"
    using sorted_merged [OF assms(2,3), of "length dstops" "length gstops"] assms(4)
    unfolding sorted_pad st by simp
  have 3: "set dstops \<union> set ?G \<subseteq> set ?out" using st by auto
  have 4: "set ?out \<subseteq> insert 0 (set dstops \<union> set ?G)" using st by auto
  have k: "?k = size (mset dstops \<inter># mset ?G)"
    using size_merged [OF assms(2,3)] by simp
  have "count (mset ?M) v = max (count_list dstops v) (count_list ?G v)" for v
    unfolding ms by (simp add: count_mset del: mset_map)
  then have c: "count_list ?M v = max (count_list dstops v) (count_list ?G v)" for v
    by (simp add: count_mset)
  have 5: "\<forall>v. count_list ?out v =
         max (count_list dstops v) (count_list ?G v) +
         (if v = 0 then size (mset dstops \<inter># mset ?G) else 0)"
    unfolding count_list_pad c k by simp
  have 6: "\<forall>v \<in> set ?out. v \<noteq> 0 \<longrightarrow> count_list ?out v = 1"
    if "distinct dstops" "distinct ?G"
  proof (intro ballI impI)
    fix v assume v: "v \<in> set ?out" "v \<noteq> 0"
    then have "v \<in> set dstops \<union> set ?G" using 4 by auto
    then have "max (count_list dstops v) (count_list ?G v) = 1"
      unfolding count_list_distinct [OF that(1)] count_list_distinct [OF that(2)] by auto
    then show "count_list ?out v = 1" using v(2) by (simp only: count_list_pad c if_False add_0)
  qed
  show ?thesis
    apply (rule exI [of _ ?out])
    using 1 2 3 4 5 6 by blast
qed

theorem sort_stops_ascending_witness:
  "[0, 3000, 6000 :: int] \<noteq> [] \<and> sorted [0, 3000, 6000 :: int] \<and>
   sorted (map depth [\<lparr>depth = 3000, gasidx = 1\<rparr>, \<lparr>depth = 4000, gasidx = 2\<rparr>]) \<and>
   list_all (\<lambda>d. 0 \<le> d)
     ([0, 3000, 6000] @ map depth [\<lparr>depth = 3000, gasidx = 1\<rparr>, \<lparr>depth = 4000, gasidx = 2\<rparr>]) \<and>
   distinct [0, 3000, 6000 :: int] \<and>
   distinct (map depth [\<lparr>depth = 3000, gasidx = 1\<rparr>, \<lparr>depth = 4000, gasidx = 2\<rparr>]) \<and>
   sort_stops [0, 3000, 6000] [\<lparr>depth = 3000, gasidx = 1\<rparr>, \<lparr>depth = 4000, gasidx = 2\<rparr>]
     = Some (map Some [0, 0, 3000, 4000, 6000]) \<and>
   sorted [0, 0, 3000, 4000, 6000 :: int] \<and>
   count_list [0, 0, 3000, 4000, 6000 :: int] 3000 = 1"
proof -
  have "\<exists>out. sort_stops [0, 3000, 6000] [\<lparr>depth = 3000, gasidx = 1\<rparr>, \<lparr>depth = 4000, gasidx = 2\<rparr>]
      = Some (map Some out) \<and> sorted out \<and>
      set [0, 3000, 6000] \<union> set (map depth [\<lparr>depth = 3000, gasidx = 1\<rparr>, \<lparr>depth = 4000, gasidx = 2\<rparr>]) \<subseteq> set out \<and>
      set out \<subseteq> insert 0 (set [0, 3000, 6000] \<union> set (map depth [\<lparr>depth = 3000, gasidx = 1\<rparr>, \<lparr>depth = 4000, gasidx = 2\<rparr>])) \<and>
      (\<forall>v. count_list out v =
         max (count_list [0, 3000, 6000] v)
           (count_list (map depth [\<lparr>depth = 3000, gasidx = 1\<rparr>, \<lparr>depth = 4000, gasidx = 2\<rparr>]) v) +
         (if v = 0 then size (mset [0, 3000, 6000] \<inter>#
                 mset (map depth [\<lparr>depth = 3000, gasidx = 1\<rparr>, \<lparr>depth = 4000, gasidx = 2\<rparr>])) else 0)) \<and>
      (distinct [0, 3000, 6000 :: int] \<and>
       distinct (map depth [\<lparr>depth = 3000, gasidx = 1\<rparr>, \<lparr>depth = 4000, gasidx = 2\<rparr>]) \<longrightarrow>
         (\<forall>v \<in> set out. v \<noteq> 0 \<longrightarrow> count_list out v = 1))"
    by (rule sort_stops_ascending) simp_all
  moreover have "sort_stops [0, 3000, 6000] [\<lparr>depth = 3000, gasidx = 1\<rparr>, \<lparr>depth = 4000, gasidx = 2\<rparr>]
     = Some (map Some [0, 0, 3000, 4000, 6000])"
    by code_simp
  ultimately show ?thesis by simp
qed

theorem sort_stops_layout_witness:
  "sort_stops [0, 3000, 6000] [\<lparr>depth = 3000, gasidx = 1\<rparr>, \<lparr>depth = 6000, gasidx = 2\<rparr>]
     = Some (map Some (replicate 2 0 @ [0, 3000, 6000])) \<and>
   2 + length [0, 3000, 6000 :: int] = length [0, 3000, 6000 :: int] + length [\<lparr>depth = 3000, gasidx = 1\<rparr>, \<lparr>depth = 6000, gasidx = 2\<rparr>] \<and>
   sorted [0, 3000, 6000 :: int] \<and>
   sorted (map depth [\<lparr>depth = 3000, gasidx = 1\<rparr>, \<lparr>depth = 6000, gasidx = 2\<rparr>]) \<and>
   sorted (replicate 2 0 @ [0, 3000, 6000 :: int])"
proof -
  have "[0, 3000, 6000 :: int] \<noteq> [] \<or> [\<lparr>depth = 3000, gasidx = 1\<rparr>, \<lparr>depth = 6000, gasidx = 2\<rparr>] = []"
    by simp
  from sort_stops_layout [OF this]
  obtain k ladder where
    "sort_stops [0, 3000, 6000] [\<lparr>depth = 3000, gasidx = 1\<rparr>, \<lparr>depth = 6000, gasidx = 2\<rparr>]
       = Some (map Some (replicate k 0 @ ladder))"
    by blast
  moreover have "sort_stops [0, 3000, 6000] [\<lparr>depth = 3000, gasidx = 1\<rparr>, \<lparr>depth = 6000, gasidx = 2\<rparr>]
     = Some (map Some [0, 0, 0, 3000, 6000])"
    by code_simp
  ultimately show ?thesis by (simp add: numeral_2_eq_2)
qed

subsection \<open>The ascent rate\<close>

lemma cdiv_rates: "cdiv 1000 60 = 16" "cdiv 9000 60 = 150" "cdiv 6000 60 = 100"
  by (simp_all add: cdiv_def)

lemma int32_id: "INT_MIN \<le> x \<Longrightarrow> x \<le> INT_MAX \<Longrightarrow> int32 x = x"
  by (simp add: int32_def INT_MIN_def INT_MAX_def)

text \<open>
  Claim C4 as stated is about every depth and has a rate of 1 m/min up to 6 m. The rate
  up to 6 m is 16 mm/s, the integer quotient of 1000 by 60, which is 960 mm in a minute. And
  the comparison of the two products is made in \<^verbatim>\<open>int\<close>: at a depth of 600000000 mm the
  product \<open>depth \<sqdot> 4\<close> is beyond \<^verbatim>\<open>INT_MAX\<close> and becomes negative, so the rate is that of
  6 m/min although \<open>depth \<sqdot> 4 > avg_depth \<sqdot> 3\<close>.
\<close>

theorem ascend_velocity_overflow_counterexample:
  "60 * ascend_velocity 6000 6000 0 = 960 \<and>
   (6000 :: int) < 600000000 \<and> (600000000 :: int) \<le> INT_MAX \<and>
   (600000000 :: int) * 4 > 0 * 3 \<and>
   ascend_velocity 600000000 0 0 = 100"
  by (simp add: ascend_velocity_def int32_def cdiv_rates INT_MAX_def)

text \<open>
  Claim C4, amended. Up to 6 m \<^verbatim>\<open>ascend_velocity\<close> returns 16 mm/s (960 mm in a
  minute). Deeper, as long as the products \<open>depth \<sqdot> 4\<close> and \<open>avg_depth \<sqdot> 3\<close> are within the
  range of \<^verbatim>\<open>int\<close>, it returns 150 mm/s (9 m/min) when \<open>depth \<sqdot> 4 > avg_depth \<sqdot> 3\<close> and
  100 mm/s (6 m/min) otherwise.
\<close>

theorem ascend_velocity_rates:
  assumes "depth_mm \<le> 6000 \<or>
           (depth_mm * 4 \<le> INT_MAX \<and> INT_MIN \<le> avg_depth * 3 \<and> avg_depth * 3 \<le> INT_MAX)"
  shows "ascend_velocity depth_mm avg_depth bottom_time =
           (if depth_mm \<le> 6000 then 16
            else if depth_mm * 4 > avg_depth * 3 then 150
            else 100) \<and>
         60 * ascend_velocity depth_mm avg_depth bottom_time =
           (if depth_mm \<le> 6000 then 960
            else if depth_mm * 4 > avg_depth * 3 then 9000
            else 6000)"
proof (cases "depth_mm \<le> 6000")
  case True
  then show ?thesis by (simp add: ascend_velocity_def cdiv_rates)
next
  case False
  then have r: "depth_mm * 4 \<le> INT_MAX" "INT_MIN \<le> avg_depth * 3" "avg_depth * 3 \<le> INT_MAX"
    using assms by auto
  have "INT_MIN \<le> depth_mm * 4" using False by (simp add: INT_MIN_def)
  then have d: "int32 (depth_mm * 4) = depth_mm * 4" using r(1) by (rule int32_id)
  have a: "int32 (avg_depth * 3) = avg_depth * 3" using r(2,3) by (rule int32_id)
  show ?thesis using False by (simp add: ascend_velocity_def cdiv_rates d a)
qed

theorem ascend_velocity_rates_witness:
  "ascend_velocity 3000 20000 0 = 16 \<and> ascend_velocity 20000 20000 0 = 150 \<and>
   ascend_velocity 12000 20000 0 = 100 \<and> 60 * ascend_velocity 20000 20000 0 = 9000"
  using ascend_velocity_rates [of 3000 20000 0] ascend_velocity_rates [of 20000 20000 0]
    ascend_velocity_rates [of 12000 20000 0]
  by (simp add: INT_MIN_def INT_MAX_def)

subsection \<open>Appending a way point\<close>





subsection \<open>The parsers\<close>

text \<open>
  The inputs of the specification's parser scenario: \<^verbatim>\<open>validate_gas\<close> returns 1 and
  stores the mix, or returns 0.
\<close>

lemma validate_gas_examples:
  "validate_gas (Some ''air'') g = (1, g\<lparr>o2 := 209, he := 0\<rparr>)"
  "validate_gas (Some ''  EAN32 '') g = (1, g\<lparr>o2 := 320, he := 0\<rparr>)"
  "validate_gas (Some ''21/35'') g = (1, g\<lparr>o2 := 210, he := 350\<rparr>)"
  "validate_gas (Some ''18/45%'') g = (1, g\<lparr>o2 := 180, he := 450\<rparr>)"
  "validate_gas (Some ''21/80'') g = (0, g)"
  "validate_gas (Some '''') g = (0, g)"
  by code_simp+

text \<open>
  Claim C5 at the input \<^verbatim>\<open>"air "\<close>. The grammar reads \<^verbatim>\<open>air\<close> and allows white space
  after it; \<^verbatim>\<open>validate_gas\<close> compares the whole rest of the text with \<^verbatim>\<open>strcasecmp\<close>, so
  the branch for air is not taken and the text is rejected. The same text with \<^verbatim>\<open>ean32\<close>
  in place of \<^verbatim>\<open>air\<close> is accepted.
\<close>

theorem validate_gas_air_trailing_space:
  "validate_gas (Some ''air '') \<lparr>o2 = 320, he = 0\<rparr> = (0, \<lparr>o2 = 320, he = 0\<rparr>) \<and>
   validate_gas (Some ''air'') \<lparr>o2 = 320, he = 0\<rparr> = (1, \<lparr>o2 = 209, he = 0\<rparr>) \<and>
   validate_gas (Some ''ean32 '') \<lparr>o2 = 209, he = 0\<rparr> = (1, \<lparr>o2 = 320, he = 0\<rparr>)"
  by code_simp

theorem validate_gas_air_trailing_space_witness:
  "fst (validate_gas (Some ''air '') \<lparr>o2 = 320, he = 0\<rparr>) = 0 \<and>
   fst (validate_gas (Some ''ean32 '') \<lparr>o2 = 209, he = 0\<rparr>) = 1"
  using validate_gas_air_trailing_space by simp

text \<open>
  Numbers beyond the range of \<^verbatim>\<open>int\<close>: \<^verbatim>\<open>strtol\<close> returns \<^verbatim>\<open>LONG_MAX\<close> for twenty nines,
  which is \<open>-1\<close> as an \<^verbatim>\<open>int\<close>, so the text is rejected; \<open>2^32 + 1\<close> is 1 as an \<^verbatim>\<open>int\<close> and
  is read as 1.0.
\<close>

lemma get_tenths_beyond_int:
  "strtol ''99999999999999999999'' = (LONG_MAX, '''')"
  "get_tenths ''99999999999999999999'' e = (- 10, '''')"
  "validate_po2 (Some ''99999999999999999999'') 1600 = (0, 1600)"
  "get_tenths ''4294967297'' e = (10, '''')"
  "validate_po2 (Some ''4294967297'') 1600 = (1, 1000)"
  by code_simp+

text \<open>
  Claim C8. When \<^verbatim>\<open>validate_gas\<close> returns 0 the gas mix behind its second argument is
  what it was before the call, and when \<^verbatim>\<open>validate_po2\<close> returns 0 so is the partial
  pressure behind its second argument.
\<close>

theorem validate_failure_keeps_output:
  "(fst (validate_gas text0 gas) = 0 \<longrightarrow> snd (validate_gas text0 gas) = gas) \<and>
   (fst (validate_po2 text0 mbar_po2) = 0 \<longrightarrow> snd (validate_po2 text0 mbar_po2) = mbar_po2)"
proof -
  have 1: "fst (validate_gas text0 gas) = 0 \<longrightarrow> snd (validate_gas text0 gas) = gas"
    by (cases text0) (auto simp: validate_gas_def Let_def split: if_splits prod.splits)
  have 2: "fst (validate_po2 text0 mbar_po2) = 0 \<longrightarrow> snd (validate_po2 text0 mbar_po2) = mbar_po2"
    by (cases text0) (auto simp: validate_po2_def Let_def split: if_splits prod.splits)
  show ?thesis using 1 2 by simp
qed

theorem validate_failure_keeps_output_witness:
  "fst (validate_gas (Some ''21/80'') \<lparr>o2 = 320, he = 0\<rparr>) = 0 \<and>
   snd (validate_gas (Some ''21/80'') \<lparr>o2 = 320, he = 0\<rparr>) = \<lparr>o2 = 320, he = 0\<rparr> \<and>
   fst (validate_po2 (Some ''1.4 bar'') 1600) = 0 \<and>
   snd (validate_po2 (Some ''1.4 bar'') 1600) = 1600"
proof -
  have a: "fst (validate_gas (Some ''21/80'') \<lparr>o2 = 320, he = 0\<rparr>) = 0" by code_simp
  have b: "fst (validate_po2 (Some ''1.4 bar'') 1600) = 0" by code_simp
  show ?thesis
    using validate_failure_keeps_output [of "Some ''21/80''" "\<lparr>o2 = 320, he = 0\<rparr>" "1600"] a
      validate_failure_keeps_output [of "Some ''1.4 bar''" "\<lparr>o2 = 320, he = 0\<rparr>" "1600"] b
    by simp
qed

subsection \<open>Finding a cylinder by its gas\<close>

lemma verify_gas_exists_loop_first:
  "(verify_gas_exists_loop cs mix i = - 1 \<and> (\<forall>k < length cs. \<not> matches_at cs mix k)) \<or>
   (\<exists>k < length cs. verify_gas_exists_loop cs mix i = i + int k \<and> matches_at cs mix k \<and>
      (\<forall>j < k. \<not> matches_at cs mix j))"
proof (induction cs arbitrary: i)
  case Nil
  then show ?case by simp
next
  case (Cons c cs)
  show ?case
  proof (cases "matches_at (c # cs) mix 0")
    case True
    then have "verify_gas_exists_loop (c # cs) mix i = i + int 0"
      by (simp add: matches_at_def)
    then show ?thesis using True by blast
  next
    case False
    then have step: "verify_gas_exists_loop (c # cs) mix i = verify_gas_exists_loop cs mix (i + 1)"
      by (auto simp: matches_at_def)
    have sh: "matches_at (c # cs) mix (Suc k) = matches_at cs mix k" for k
      by (simp add: matches_at_def)
    from Cons.IH [of "i + 1"] show ?thesis
    proof
      assume a: "verify_gas_exists_loop cs mix (i + 1) = - 1 \<and> (\<forall>k < length cs. \<not> matches_at cs mix k)"
      have "\<not> matches_at (c # cs) mix k" if "k < length (c # cs)" for k
        using that a False sh by (cases k) auto
      then show ?thesis using a step by simp
    next
      assume "\<exists>k < length cs. verify_gas_exists_loop cs mix (i + 1) = i + 1 + int k \<and>
          matches_at cs mix k \<and> (\<forall>j < k. \<not> matches_at cs mix j)"
      then obtain k where k: "k < length cs" "verify_gas_exists_loop cs mix (i + 1) = i + 1 + int k"
          "matches_at cs mix k" "\<forall>j < k. \<not> matches_at cs mix j"
        by blast
      have "\<not> matches_at (c # cs) mix j" if "j < Suc k" for j
        using that k(4) False sh by (cases j) auto
      moreover have "verify_gas_exists_loop (c # cs) mix i = i + int (Suc k)"
        using step k(2) by simp
      moreover have "matches_at (c # cs) mix (Suc k)" using k(3) sh by simp
      moreover have "Suc k < length (c # cs)" using k(1) by simp
      ultimately show ?thesis by blast
    qed
  qed
qed

text \<open>
  \<^verbatim>\<open>verify_gas_exists\<close> returns the first index of a cylinder that has data and whose
  mix is at a distance below 200, and -1 when there is none.
\<close>

lemma verify_gas_exists_first:
  "(verify_gas_exists d mix = - 1 \<and> (\<forall>k < length (cylinder d). \<not> matches_at (cylinder d) mix k)) \<or>
   (\<exists>k < length (cylinder d). verify_gas_exists d mix = int k \<and> matches_at (cylinder d) mix k \<and>
      (\<forall>j < k. \<not> matches_at (cylinder d) mix j))"
  using verify_gas_exists_loop_first [of "cylinder d" mix 0] by (simp add: verify_gas_exists_def)

text \<open>
  Claim C6 at an inventory whose first slot is empty and whose second cylinder holds the
  mix asked for, 10 percent oxygen and 5 percent helium: \<^verbatim>\<open>verify_gas_exists\<close> passes
  over the empty slot and returns index 1; \<^verbatim>\<open>get_gasidx\<close> has no such test and returns the
  empty slot, index 0, whose null mix is at distance 150.
\<close>

theorem get_gasidx_empty_slot:
  "cylinder_nodata \<lparr>cyl_description = [], cyl_size = 0, cyl_workingpressure = 0,
        cyl_gasmix = \<lparr>o2 = 0, he = 0\<rparr>, cyl_start = 0, cyl_end = 0, cyl_depth = 0, cyl_gas_used = 0\<rparr> \<and>
   get_gasidx \<lparr>dive_when = 0, dc_surface_pressure = 1013,
      cylinder = [\<lparr>cyl_description = [], cyl_size = 0, cyl_workingpressure = 0,
                    cyl_gasmix = \<lparr>o2 = 0, he = 0\<rparr>, cyl_start = 0, cyl_end = 0, cyl_depth = 0, cyl_gas_used = 0\<rparr>,
                  \<lparr>cyl_description = ''D12'', cyl_size = 24000, cyl_workingpressure = 232000,
                    cyl_gasmix = \<lparr>o2 = 100, he = 50\<rparr>, cyl_start = 232000, cyl_end = 232000, cyl_depth = 0, cyl_gas_used = 0\<rparr>],
      dc_sample = [], dc_events = []\<rparr> \<lparr>o2 = 100, he = 50\<rparr> = 0 \<and>
   verify_gas_exists \<lparr>dive_when = 0, dc_surface_pressure = 1013,
      cylinder = [\<lparr>cyl_description = [], cyl_size = 0, cyl_workingpressure = 0,
                    cyl_gasmix = \<lparr>o2 = 0, he = 0\<rparr>, cyl_start = 0, cyl_end = 0, cyl_depth = 0, cyl_gas_used = 0\<rparr>,
                  \<lparr>cyl_description = ''D12'', cyl_size = 24000, cyl_workingpressure = 232000,
                    cyl_gasmix = \<lparr>o2 = 100, he = 50\<rparr>, cyl_start = 232000, cyl_end = 232000, cyl_depth = 0, cyl_gas_used = 0\<rparr>],
      dc_sample = [], dc_events = []\<rparr> \<lparr>o2 = 100, he = 50\<rparr> = 1"
  by code_simp

subsection \<open>The times of the way points during the ascent\<close>

















subsection \<open>Runs of \<^verbatim>\<open>plan\<close>\<close>

lemma dp_with_default [simp]: "dp (with_default_surface_pressure diveplan) = dp diveplan"
  by (simp add: with_default_surface_pressure_def)

lemma plan_times_with_default [simp]:
  "plan_times (with_default_surface_pressure diveplan) = plan_times diveplan"
  by (simp add: plan_times_def)















subsection \<open>A gas that no cylinder matches\<close>






























text \<open>
  The dive is kept when the ascent starts with a switch to a gas that was declared for
  it: then no way point carries the gas that was not found.
\<close>

lemma cant_find_gas_dive_kept:
  "map_option (\<lambda>r. (r_divep r \<noteq> None, r_errors r))
     (plan example_env decostoplevels declared_helium_plan None None (master_of [air_cylinder, helium_cylinder])
        True False 0 [])
     = Some (True, [CantFindGas \<lparr>o2 = 500, he = 0\<rparr>, CantFindGas \<lparr>o2 = 500, he = 0\<rparr>])"
  by code_simp



end
